theory Spec2Isabelle
  imports Main "HOL-Library.Word"
begin

unbundle bit_operations_syntax

section \<open>Bytes and the ctypes structures of PostProcessing.py\<close>

type_synonym byte = "8 word"

text \<open>
  The structures are \<^verbatim>\<open>ctypes.Structure\<close> subclasses, so their fields are stored in
  the byte order of the host. The resource steps run on Windows only
  (\<^verbatim>\<open>isWin32Windows()\<close>), whose hosts are little-endian: a \<^verbatim>\<open>c_short\<close> is two
  bytes and a \<^verbatim>\<open>c_int\<close> four, low byte first.
\<close>

definition bytes_of_short :: "16 word \<Rightarrow> byte list" where
  "bytes_of_short w = [ucast w, ucast (drop_bit 8 w)]"

definition bytes_of_int :: "32 word \<Rightarrow> byte list" where
  "bytes_of_int w =
     [ucast w, ucast (drop_bit 8 w), ucast (drop_bit 16 w), ucast (drop_bit 24 w)]"

definition short_of_bytes :: "byte list \<Rightarrow> 16 word" where
  "short_of_bytes bs = ucast (bs ! 0) OR push_bit 8 (ucast (bs ! 1))"

definition int_of_bytes :: "byte list \<Rightarrow> 32 word" where
  "int_of_bytes bs =
     ucast (bs ! 0) OR push_bit 8 (ucast (bs ! 1)) OR
     push_bit 16 (ucast (bs ! 2)) OR push_bit 24 (ucast (bs ! 3))"

subsection \<open>How ctypes lays a structure out\<close>

datatype ctype = c_char | c_short | c_int

fun sizeof_ctype :: "ctype \<Rightarrow> nat" where
  "sizeof_ctype c_char = 1"
| "sizeof_ctype c_short = 2"
| "sizeof_ctype c_int = 4"

text \<open>
  A field is aligned to its own size, or to \<^verbatim>\<open>_pack_\<close> when the class sets it and it is
  smaller. \<open>None\<close> stands for a class without \<^verbatim>\<open>_pack_\<close>.
\<close>

definition field_align :: "nat option \<Rightarrow> ctype \<Rightarrow> nat" where
  "field_align pack t =
     (case pack of None \<Rightarrow> sizeof_ctype t | Some p \<Rightarrow> min p (sizeof_ctype t))"

definition align_up :: "nat \<Rightarrow> nat \<Rightarrow> nat" where
  "align_up a n = ((n + a - 1) div a) * a"

text \<open>The offsets of the fields, the first one placed at or after \<open>off\<close>.\<close>

fun field_offsets :: "nat option \<Rightarrow> nat \<Rightarrow> ctype list \<Rightarrow> nat list" where
  "field_offsets pack off [] = []"
| "field_offsets pack off (t # ts) =
     (let at = align_up (field_align pack t) off
      in at # field_offsets pack (at + sizeof_ctype t) ts)"

fun fields_end :: "nat option \<Rightarrow> nat \<Rightarrow> ctype list \<Rightarrow> nat" where
  "fields_end pack off [] = off"
| "fields_end pack off (t # ts) =
     fields_end pack (align_up (field_align pack t) off + sizeof_ctype t) ts"

definition struct_align :: "nat option \<Rightarrow> ctype list \<Rightarrow> nat" where
  "struct_align pack ts = fold max (map (field_align pack) ts) 1"

text \<open>\<^verbatim>\<open>ctypes.sizeof\<close>: the end of the last field, rounded up to the alignment of the structure.\<close>

definition sizeof :: "nat option \<Rightarrow> ctype list \<Rightarrow> nat" where
  "sizeof pack ts = align_up (struct_align pack ts) (fields_end pack 0 ts)"

text \<open>
  The memory of a structure whose fields hold the given bytes. A structure is created
  zeroed (\<^verbatim>\<open>c_struct()\<close>), so the padding bytes are 0.
\<close>

fun fields_image :: "nat option \<Rightarrow> nat \<Rightarrow> (ctype \<times> byte list) list \<Rightarrow> byte list" where
  "fields_image pack off [] = []"
| "fields_image pack off ((t, bs) # fs) =
     (let at = align_up (field_align pack t) off
      in replicate (at - off) 0 @ bs @ fields_image pack (at + sizeof_ctype t) fs)"

definition struct_image :: "nat option \<Rightarrow> (ctype \<times> byte list) list \<Rightarrow> byte list" where
  "struct_image pack fs =
     (let body = fields_image pack 0 fs
      in body @ replicate (sizeof pack (map fst fs) - length body) 0)"

text \<open>Reading the fields back out of the memory of a structure.\<close>

definition field_bytes :: "nat option \<Rightarrow> ctype list \<Rightarrow> byte list \<Rightarrow> nat \<Rightarrow> byte list" where
  "field_bytes pack ts mem k =
     take (sizeof_ctype (ts ! k)) (drop (field_offsets pack 0 ts ! k) mem)"

subsection \<open>The three structures\<close>

record IconDirectoryHeader =
  hdr_reserved :: "16 word"
  hdr_type :: "16 word"
  hdr_count :: "16 word"

definition IconDirectoryHeader_fields :: "ctype list" where
  "IconDirectoryHeader_fields = [c_short, c_short, c_short]"

record IconDirectoryEntry =
  width :: byte
  height :: byte
  colors :: byte
  reserved :: byte
  planes :: "16 word"
  bit_count :: "16 word"
  image_size :: "32 word"
  image_offset :: "32 word"

definition IconDirectoryEntry_fields :: "ctype list" where
  "IconDirectoryEntry_fields =
     [c_char, c_char, c_char, c_char, c_short, c_short, c_int, c_int]"

text \<open>
  \<^verbatim>\<open>IconGroupDirectoryEntry\<close> has the fields of \<^verbatim>\<open>IconDirectoryEntry\<close> with
  \<^verbatim>\<open>image_offset\<close> replaced by \<^verbatim>\<open>id\<close>, and \<^verbatim>\<open>_pack_ = 2\<close>. Its field names carry the
  prefix \<open>g_\<close> here, as two records cannot share selector names.
\<close>

record IconGroupDirectoryEntry =
  g_width :: byte
  g_height :: byte
  g_colors :: byte
  g_reserved :: byte
  g_planes :: "16 word"
  g_bit_count :: "16 word"
  g_image_size :: "32 word"
  g_id :: "16 word"

definition IconGroupDirectoryEntry_fields :: "ctype list" where
  "IconGroupDirectoryEntry_fields =
     [c_char, c_char, c_char, c_char, c_short, c_short, c_int, c_short]"

definition IconGroupDirectoryEntry_pack :: "nat option" where
  "IconGroupDirectoryEntry_pack = Some 2"

definition header_memory :: "IconDirectoryHeader \<Rightarrow> byte list" where
  "header_memory h =
     struct_image None
       (zip IconDirectoryHeader_fields
          [bytes_of_short (hdr_reserved h), bytes_of_short (hdr_type h),
           bytes_of_short (hdr_count h)])"

definition group_entry_memory :: "IconGroupDirectoryEntry \<Rightarrow> byte list" where
  "group_entry_memory g =
     struct_image IconGroupDirectoryEntry_pack
       (zip IconGroupDirectoryEntry_fields
          [[g_width g], [g_height g], [g_colors g], [g_reserved g],
           bytes_of_short (g_planes g), bytes_of_short (g_bit_count g),
           bytes_of_int (g_image_size g), bytes_of_short (g_id g)])"

text \<open>
  Modelled from the spec: \<^verbatim>\<open>convertStructureToBytes\<close> is imported from
  \<^verbatim>\<open>nuitka.utils.WindowsResources\<close>, which is not among the sources. It returns the
  structure as bytes, written "byte-for-byte into the resource section": the memory of
  the structure, \<^verbatim>\<open>ctypes.sizeof\<close> bytes long. One function per structure class.
\<close>

definition convertStructureToBytes_header :: "IconDirectoryHeader \<Rightarrow> byte list" where
  "convertStructureToBytes_header h = header_memory h"

definition convertStructureToBytes_group :: "IconGroupDirectoryEntry \<Rightarrow> byte list" where
  "convertStructureToBytes_group g = group_entry_memory g"

text \<open>A structure filled from \<^verbatim>\<open>sizeof\<close> bytes of memory, as \<^verbatim>\<open>ctypes.memmove\<close> leaves it.\<close>

definition header_of_memory :: "byte list \<Rightarrow> IconDirectoryHeader" where
  "header_of_memory mem =
     (let f = field_bytes None IconDirectoryHeader_fields mem
      in \<lparr>hdr_reserved = short_of_bytes (f 0), hdr_type = short_of_bytes (f 1),
          hdr_count = short_of_bytes (f 2)\<rparr>)"

definition entry_of_memory :: "byte list \<Rightarrow> IconDirectoryEntry" where
  "entry_of_memory mem =
     (let f = field_bytes None IconDirectoryEntry_fields mem
      in \<lparr>width = f 0 ! 0, height = f 1 ! 0, colors = f 2 ! 0, reserved = f 3 ! 0,
          planes = short_of_bytes (f 4), bit_count = short_of_bytes (f 5),
          image_size = int_of_bytes (f 6), image_offset = int_of_bytes (f 7)\<rparr>)"

section \<open>The world of the post-processing step\<close>

text \<open>
  The resource kinds are imported from \<^verbatim>\<open>nuitka.utils.WindowsResources\<close>, which is
  not among the sources; they are three different constants.
\<close>

datatype resource_kind = RT_ICON | RT_GROUP_ICON | RT_RCDATA

datatype py_exception = ValueError | OSError

text \<open>
  Every \<^verbatim>\<open>postprocessing_logger.sysexit\<close> of the module, with the values its message
  is formatted from, and the exceptions that nothing catches.
\<close>

datatype error =
    CannotSpecifyIndexes string
  | NeedImageio string
  | UnsupportedFileFormat string
  | IconIndexOutOfRange int string nat
  | SconsFailed string
  | Uncaught py_exception

datatype message =
    NotInIconFormat
  | AddingIcons nat string
  | TemplateEmpty string
  | CopiedIcons nat string

text \<open>
  Modelled from the spec: the manifest class lives in \<^verbatim>\<open>nuitka.utils.WindowsResources\<close>,
  which is not among the sources. A manifest carries two privilege flags, and
  \<^verbatim>\<open>addUacAdmin\<close> and \<^verbatim>\<open>addUacUiAccess\<close> raise them.
\<close>

record manifest =
  m_document :: string
  m_uac_admin :: bool
  m_uac_ui_access :: bool

definition addUacAdmin :: "manifest \<Rightarrow> manifest" where
  "addUacAdmin m = m\<lparr>m_uac_admin := True\<rparr>"

definition addUacUiAccess :: "manifest \<Rightarrow> manifest" where
  "addUacUiAccess m = m\<lparr>m_uac_ui_access := True\<rparr>"

type_synonym version = "nat \<times> nat \<times> nat \<times> nat"

text \<open>
  What the module does to the outside, in the order it does it. \<open>AddResource\<close> is a call
  of \<^verbatim>\<open>addResourceToFile\<close> with its \<^verbatim>\<open>target_filename\<close>, \<^verbatim>\<open>resource_kind\<close>,
  \<^verbatim>\<open>lang_id\<close>, \<^verbatim>\<open>res_name\<close> and \<^verbatim>\<open>data\<close>. \<open>ReadStructure\<close> is the read inside
  \<^verbatim>\<open>readFromFile\<close>; \<open>Seek\<close> and \<open>ReadImage\<close> are the two calls that fetch the bytes
  of one image.
\<close>

datatype event =
    Info message
  | Warning message
  | Open string
  | ReadStructure string nat
  | Seek string int
  | ReadImage string int
  | ImRead string
  | MakePath string
  | ImWrite string
  | AddResource string resource_kind nat nat "byte list"
  | ManifestAddResource manifest string
  | AddVersionInfoResource "(string \<times> string) list" "version option" "version option" bool string
  | CopyResources string string "resource_kind list"
  | GetFileContents string
  | CallInstallNameTool string "(string \<times> string) list" string
  | RemoveFileExecutablePermission string
  | Unlink string
  | PutTextFileContents string string

type_synonym fs = "string \<Rightarrow> byte list option"

text \<open>
  The host: Python built-ins and library functions, and the functions of Nuitka modules
  that are not among the sources. \<open>beyond_chunk env chunk k\<close> is the byte that lies
  \<open>k\<close> places behind the end of the buffer of \<open>chunk\<close> in memory.
\<close>

record host =
  py_int :: "string \<Rightarrow> int option"
  normcase :: "string \<Rightarrow> string"
  path_join :: "string \<Rightarrow> string \<Rightarrow> string"
  dirname :: "string \<Rightarrow> string"
  basename :: "string \<Rightarrow> string"
  beyond_chunk :: "byte list \<Rightarrow> nat \<Rightarrow> byte"
  imageio_installed :: bool
  imread :: "fs \<Rightarrow> string \<Rightarrow> py_exception + byte list"
  imwrite :: "byte list \<Rightarrow> byte list"
  isWin32Windows :: bool
  getOS :: string
  python_version :: nat
  python_version_str :: string
  getPythonABI :: string
  sys_prefix :: string
  getTargetPythonDLLPath :: string
  getExternalUsePath :: "string \<Rightarrow> string"
  getConstantBlobFilename :: "string \<Rightarrow> string"
  getDefaultWindowsExecutableManifest :: manifest
  getWindowsExecutableManifest :: "manifest option"
  copyResourcesFromFileToFile :: "fs \<Rightarrow> string \<Rightarrow> string \<Rightarrow> nat"

text \<open>The validated configuration: \<^verbatim>\<open>Options\<close> and \<^verbatim>\<open>OutputDirectories\<close>.\<close>

record env = host +
  getIconPaths :: "string list"
  getResultFullpath :: "bool \<Rightarrow> string"
  getSourceDirectoryPath :: "bool \<Rightarrow> string"
  getResultRunFilename :: "bool \<Rightarrow> string"
  shallAskForWindowsAdminRights :: bool
  shallAskForWindowsUIAccessRights :: bool
  getWindowsVersionInfoStrings :: "(string \<times> string) list"
  getWindowsProductVersion :: "version option"
  getWindowsFileVersion :: "version option"
  shallMakeModule :: bool
  getWindowsIconExecutablePath :: "string option"
  getWindowsSplashScreen :: "string option"
  shallUseStaticLibPython :: bool
  shallTreatUninstalledPython :: bool

subsection \<open>Outcomes\<close>

text \<open>
  A step yields the events it caused and either the error that ended the process or its
  value. \<open>thn\<close> runs a second step after a first one that did not fail.
\<close>

type_synonym 'a outcome = "event list \<times> (error + 'a)"

definition ret :: "'a \<Rightarrow> 'a outcome" where
  "ret x = ([], Inr x)"

definition sysexit :: "error \<Rightarrow> 'a outcome" where
  "sysexit e = ([], Inl e)"

definition emit :: "event \<Rightarrow> unit outcome" where
  "emit ev = ([ev], Inr ())"

definition thn :: "'a outcome \<Rightarrow> ('a \<Rightarrow> 'b outcome) \<Rightarrow> 'b outcome" where
  "thn m f =
     (case m of
        (t, Inl e) \<Rightarrow> (t, Inl e)
      | (t, Inr x) \<Rightarrow> (case f x of (t', r) \<Rightarrow> (t @ t', r)))"

subsection \<open>Strings and slices of Python\<close>

definition endswith :: "string \<Rightarrow> string \<Rightarrow> bool" where
  "endswith s suf \<longleftrightarrow> length suf \<le> length s \<and> drop (length s - length suf) s = suf"

text \<open>\<^verbatim>\<open>icon_spec.rsplit("#", 1)\<close> for a string that contains \<^verbatim>\<open>#\<close>: split at the last one.\<close>

definition rsplit_hash :: "string \<Rightarrow> string \<times> string" where
  "rsplit_hash s =
     (let after = rev (takeWhile (\<lambda>c. c \<noteq> CHR ''#'') (rev s))
      in (take (length s - length after - 1) s, after))"

text \<open>\<^verbatim>\<open>"%d" % n\<close> for a number that is not negative.\<close>

fun str_nat :: "nat \<Rightarrow> string" where
  "str_nat n =
     (if n < 10 then [''0123456789'' ! n]
      else str_nat (n div 10) @ [''0123456789'' ! (n mod 10)])"

declare str_nat.simps [simp del]

text \<open>\<^verbatim>\<open>xs[start:stop]\<close>: a negative bound counts from the end, and both are clamped.\<close>

definition py_slice :: "'a list \<Rightarrow> int \<Rightarrow> int \<Rightarrow> 'a list" where
  "py_slice xs start stop =
     (let n = int (length xs);
          clamp = (\<lambda>i. if i < 0 then max 0 (i + n) else min i n);
          a = clamp start;
          b = clamp stop
      in take (nat (b - a)) (drop (nat a) xs))"

section \<open>Reading an icon file\<close>

record stream =
  s_name :: string
  s_data :: "byte list"
  s_pos :: nat

text \<open>
  \<^verbatim>\<open>readFromFile\<close>: read \<^verbatim>\<open>sizeof\<close> bytes and copy \<^verbatim>\<open>sizeof\<close> bytes from the buffer
  that was read into the structure. Nothing compares the length of the chunk with
  \<^verbatim>\<open>sizeof\<close>: after a short read, \<^verbatim>\<open>memmove\<close> goes on behind the chunk.
\<close>

definition readFromFile :: "env \<Rightarrow> stream \<Rightarrow> nat \<Rightarrow> event list \<times> byte list \<times> stream" where
  "readFromFile env readable n =
     (let chunk = take n (drop (s_pos readable) (s_data readable));
          mem = chunk @ map (beyond_chunk env chunk) [0..<n - length chunk]
      in ([ReadStructure (s_name readable) n], mem,
          readable\<lparr>s_pos := s_pos readable + length chunk\<rparr>))"

definition readFromFile_header ::
  "env \<Rightarrow> stream \<Rightarrow> event list \<times> IconDirectoryHeader \<times> stream" where
  "readFromFile_header env readable =
     (case readFromFile env readable (sizeof None IconDirectoryHeader_fields) of
        (t, mem, readable') \<Rightarrow> (t, header_of_memory mem, readable'))"

definition readFromFile_entry ::
  "env \<Rightarrow> stream \<Rightarrow> event list \<times> IconDirectoryEntry \<times> stream" where
  "readFromFile_entry env readable =
     (case readFromFile env readable (sizeof None IconDirectoryEntry_fields) of
        (t, mem, readable') \<Rightarrow> (t, entry_of_memory mem, readable'))"

text \<open>The list comprehension over \<^verbatim>\<open>range(header.count)\<close>.\<close>

fun read_entries ::
  "env \<Rightarrow> stream \<Rightarrow> nat \<Rightarrow> event list \<times> IconDirectoryEntry list \<times> stream" where
  "read_entries env readable 0 = ([], [], readable)"
| "read_entries env readable (Suc k) =
     (case readFromFile_entry env readable of
        (t, icon, readable') \<Rightarrow>
          (case read_entries env readable' k of
             (t', icons, readable'') \<Rightarrow> (t @ t', icon # icons, readable'')))"

text \<open>
  The index filter. \<^verbatim>\<open>icons[:] = icons[icon_index : icon_index + 1]\<close> is a slice, so
  it never raises.
\<close>

definition select_icons ::
  "string \<Rightarrow> int option \<Rightarrow> IconDirectoryEntry list \<Rightarrow> IconDirectoryEntry list outcome" where
  "select_icons icon_path icon_index icons =
     (case icon_index of
        None \<Rightarrow> ret icons
      | Some i \<Rightarrow>
          if i > int (length icons)
          then sysexit (IconIndexOutOfRange i icon_path (length icons))
          else ret (py_slice icons i (i + 1)))"

text \<open>
  The loop that fetches the image bytes. \<^verbatim>\<open>seek\<close> refuses a negative position;
  \<^verbatim>\<open>read\<close> reads to the end of the file for \<open>-1\<close> and refuses a smaller size. Both
  fields are signed (\<^verbatim>\<open>c_int\<close>).
\<close>

fun read_images :: "stream \<Rightarrow> IconDirectoryEntry list \<Rightarrow> byte list list outcome" where
  "read_images icon_file [] = ([], Inr [])"
| "read_images icon_file (icon # icons) =
     (let off = sint (image_offset icon); sz = sint (image_size icon)
      in if off < 0 then ([Seek (s_name icon_file) off], Inl (Uncaught OSError))
         else if sz < - 1
         then ([Seek (s_name icon_file) off, ReadImage (s_name icon_file) sz],
               Inl (Uncaught ValueError))
         else
           (let rest = drop (nat off) (s_data icon_file);
                img = (if sz = - 1 then rest else take (nat sz) rest)
            in case read_images icon_file icons of
                 (t, r) \<Rightarrow>
                   ([Seek (s_name icon_file) off, ReadImage (s_name icon_file) sz] @ t,
                    (case r of Inl e \<Rightarrow> Inl e | Inr images \<Rightarrow> Inr (img # images)))))"

text \<open>The \<^verbatim>\<open>with open(icon_path, "rb")\<close> block.\<close>

definition read_icon_file ::
  "env \<Rightarrow> fs \<Rightarrow> string \<Rightarrow> string \<Rightarrow> int option \<Rightarrow>
     (IconDirectoryHeader \<times> IconDirectoryEntry list \<times> byte list list) outcome" where
  "read_icon_file env files icon_spec icon_path icon_index =
     (case files icon_path of
        None \<Rightarrow> ([Open icon_path], Inl (Uncaught OSError))
      | Some content \<Rightarrow>
          (case readFromFile_header env \<lparr>s_name = icon_path, s_data = content, s_pos = 0\<rparr> of
             (t1, header, f1) \<Rightarrow>
               (case read_entries env f1 (nat (sint (hdr_count header))) of
                  (t2, icons, f2) \<Rightarrow>
                    thn (Open icon_path # t1 @ t2, Inr ()) (\<lambda>_.
                    thn (select_icons icon_path icon_index icons) (\<lambda>icons.
                    thn (emit (Info (AddingIcons (length icons) icon_spec))) (\<lambda>_.
                    thn (read_images f2 icons) (\<lambda>images.
                    ret (header, icons, images))))))))"

section \<open>Adding the icons\<close>

definition parse_icon_spec :: "env \<Rightarrow> string \<Rightarrow> (string \<times> int option) outcome" where
  "parse_icon_spec env icon_spec =
     (if CHR ''#'' \<in> set icon_spec
      then (case rsplit_hash icon_spec of
              (icon_path, icon_index) \<Rightarrow>
                (case py_int env icon_index of
                   None \<Rightarrow> sysexit (Uncaught ValueError)
                 | Some i \<Rightarrow> ret (icon_path, Some i)))
      else ret (icon_spec, None))"

text \<open>The branch for a path that does not end in \<^verbatim>\<open>.ico\<close>; it yields the path to open.\<close>

definition convert_icon ::
  "env \<Rightarrow> bool \<Rightarrow> fs \<Rightarrow> nat \<Rightarrow> string \<Rightarrow> string \<Rightarrow> int option \<Rightarrow> (string \<times> fs) outcome" where
  "convert_icon env onefile files image_id icon_spec icon_path icon_index =
     (if endswith icon_path ''.ico'' then ret (icon_path, files)
      else
        thn (emit (Info NotInIconFormat)) (\<lambda>_.
        if icon_index \<noteq> None then sysexit (CannotSpecifyIndexes icon_spec)
        else if \<not> imageio_installed env then sysexit (NeedImageio icon_spec)
        else
          thn (emit (ImRead icon_path)) (\<lambda>_.
          case imread env files icon_path of
            Inl ValueError \<Rightarrow> sysexit (UnsupportedFileFormat icon_spec)
          | Inl OSError \<Rightarrow> sysexit (Uncaught OSError)
          | Inr img \<Rightarrow>
              (let icon_build_path = path_join env (getSourceDirectoryPath env onefile) ''icons''
               in thn (emit (MakePath icon_build_path)) (\<lambda>_.
                  let converted_icon_path =
                        path_join env icon_build_path (''icon-'' @ str_nat image_id @ ''.ico'')
                  in thn (emit (ImWrite converted_icon_path)) (\<lambda>_.
                     ret (converted_icon_path,
                          files(converted_icon_path \<mapsto> imwrite env img))))))))"

definition make_group_entry :: "IconDirectoryEntry \<Rightarrow> nat \<Rightarrow> IconGroupDirectoryEntry" where
  "make_group_entry icon image_id =
     \<lparr>g_width = width icon, g_height = height icon, g_colors = colors icon,
      g_reserved = reserved icon, g_planes = planes icon, g_bit_count = bit_count icon,
      g_image_size = image_size icon, g_id = word_of_nat image_id\<rparr>"

text \<open>
  The second loop over \<^verbatim>\<open>icons\<close>: one group entry per icon, \<^verbatim>\<open>image_id\<close> stored in
  its 16-bit \<^verbatim>\<open>id\<close> field (ctypes keeps the low bits) and then incremented.
\<close>

fun group_entries :: "IconDirectoryEntry list \<Rightarrow> nat \<Rightarrow> IconGroupDirectoryEntry list \<times> nat" where
  "group_entries [] image_id = ([], image_id)"
| "group_entries (icon # icons) image_id =
     (case group_entries icons (image_id + 1) of
        (gs, image_id') \<Rightarrow> (make_group_entry icon image_id # gs, image_id'))"

text \<open>
  One round of the loop over the icon specifications: it yields the images to append,
  the next \<^verbatim>\<open>image_id\<close> and the files as they are afterwards.
\<close>

definition add_icon_spec ::
  "env \<Rightarrow> bool \<Rightarrow> nat \<Rightarrow> fs \<Rightarrow> nat \<Rightarrow> string \<Rightarrow> (byte list list \<times> nat \<times> fs) outcome" where
  "add_icon_spec env onefile icon_group files image_id icon_spec =
     thn (parse_icon_spec env icon_spec) (\<lambda>(icon_path, icon_index).
     thn (convert_icon env onefile files image_id icon_spec (normcase env icon_path) icon_index)
       (\<lambda>(icon_path, files).
     thn (read_icon_file env files icon_spec icon_path icon_index) (\<lambda>(header, icons, images).
     case group_entries icons image_id of
       (gs, image_id') \<Rightarrow>
         thn (emit (AddResource (getResultFullpath env onefile) RT_GROUP_ICON 0 icon_group
                (concat (convertStructureToBytes_header header #
                         map convertStructureToBytes_group gs)))) (\<lambda>_.
         ret (images, image_id', files)))))"

fun icon_loop ::
  "env \<Rightarrow> bool \<Rightarrow> nat \<Rightarrow> fs \<Rightarrow> nat \<Rightarrow> byte list list \<Rightarrow> string list \<Rightarrow>
     (byte list list \<times> fs) outcome" where
  "icon_loop env onefile icon_group files image_id images [] = ([], Inr (images, files))"
| "icon_loop env onefile icon_group files image_id images (icon_spec # specs) =
     (case add_icon_spec env onefile icon_group files image_id icon_spec of
        (t, Inl e) \<Rightarrow> (t, Inl e)
      | (t, Inr (new_images, image_id', files')) \<Rightarrow>
          (case icon_loop env onefile icon_group files' image_id' (images @ new_images) specs of
             (t', r) \<Rightarrow> (t @ t', r)))"

text \<open>The final loop, \<^verbatim>\<open>for count, image in enumerate(images, 1)\<close>.\<close>

definition add_images :: "string \<Rightarrow> byte list list \<Rightarrow> event list" where
  "add_images result_filename images =
     map (\<lambda>(count, img). AddResource result_filename RT_ICON 0 count img)
       (zip [1..<length images + 1] images)"

definition addWindowsIconFromIcons :: "env \<Rightarrow> fs \<Rightarrow> bool \<Rightarrow> fs outcome" where
  "addWindowsIconFromIcons env files onefile =
     (let icon_group = 1; image_id = 1; images = []
      in thn (icon_loop env onefile icon_group files image_id images (getIconPaths env))
           (\<lambda>(images, files).
              (add_images (getResultFullpath env onefile) images, Inr files)))"

section \<open>Adding all resources\<close>

text \<open>
  \<^verbatim>\<open>executePostProcessingResources\<close>, in its four parts. The manifest part: the
  privilege flags are raised on the manifest that was passed in, or on the default one,
  and the manifest is written if there is one.
\<close>

definition manifest_step :: "env \<Rightarrow> manifest option \<Rightarrow> string \<Rightarrow> event list" where
  "manifest_step env manifest result_filename =
     (let manifest =
        (if shallAskForWindowsAdminRights env \<or> shallAskForWindowsUIAccessRights env
         then
           (let m0 = (case manifest of
                        None \<Rightarrow> getDefaultWindowsExecutableManifest env
                      | Some m \<Rightarrow> m);
                m1 = (if shallAskForWindowsAdminRights env then addUacAdmin m0 else m0);
                m2 = (if shallAskForWindowsUIAccessRights env then addUacUiAccess m1 else m1)
            in Some m2)
         else manifest)
      in case manifest of
           None \<Rightarrow> []
         | Some m \<Rightarrow> [ManifestAddResource m result_filename])"

text \<open>
  The version information is added when any of the three options is set; the date is
  always \<^verbatim>\<open>(0, 0)\<close> and is left out of the event.
\<close>

definition version_step :: "env \<Rightarrow> string \<Rightarrow> event list" where
  "version_step env result_filename =
     (if getWindowsVersionInfoStrings env \<noteq> [] \<or> getWindowsProductVersion env \<noteq> None \<or>
         getWindowsFileVersion env \<noteq> None
      then [AddVersionInfoResource (getWindowsVersionInfoStrings env)
              (getWindowsProductVersion env) (getWindowsFileVersion env)
              (\<not> shallMakeModule env) result_filename]
      else [])"

definition icon_step :: "env \<Rightarrow> fs \<Rightarrow> bool \<Rightarrow> fs outcome" where
  "icon_step env files onefile =
     (case getWindowsIconExecutablePath env of
        Some template_exe \<Rightarrow>
          (let res_copied =
                 copyResourcesFromFileToFile env files template_exe
                   (getResultFullpath env onefile)
           in ([CopyResources template_exe (getResultFullpath env onefile)
                  [RT_ICON, RT_GROUP_ICON],
                Warning (if res_copied = 0 then TemplateEmpty template_exe
                         else CopiedIcons res_copied template_exe)],
               Inr files))
      | None \<Rightarrow> addWindowsIconFromIcons env files onefile)"

definition splash_step :: "env \<Rightarrow> fs \<Rightarrow> string \<Rightarrow> unit outcome" where
  "splash_step env files result_filename =
     (case getWindowsSplashScreen env of
        None \<Rightarrow> ret ()
      | Some splash_screen_filename \<Rightarrow>
          (case files splash_screen_filename of
             None \<Rightarrow> ([GetFileContents splash_screen_filename], Inl (Uncaught OSError))
           | Some splash_data \<Rightarrow>
               ([GetFileContents splash_screen_filename,
                 AddResource result_filename RT_RCDATA 0 27 splash_data], Inr ())))"

definition executePostProcessingResources ::
  "env \<Rightarrow> fs \<Rightarrow> manifest option \<Rightarrow> bool \<Rightarrow> fs outcome" where
  "executePostProcessingResources env files manifest onefile =
     (let result_filename = getResultFullpath env onefile
      in thn (manifest_step env manifest result_filename @ version_step env result_filename,
              Inr ()) (\<lambda>_.
         thn (icon_step env files onefile) (\<lambda>files.
         thn (splash_step env files result_filename) (\<lambda>_.
         ret files))))"

section \<open>The whole post-processing\<close>

definition cmd_contents :: "string \<Rightarrow> string \<Rightarrow> string" where
  "cmd_contents dll_directory exe_filename =
     [CHR 0x0A] @ ''@echo off'' @ [CHR 0x0A] @
     ''rem This script was created by Nuitka to execute '' @ [CHR 0x27] @ exe_filename @
     [CHR 0x27] @ '' with Python DLL being found.'' @ [CHR 0x0A] @
     ''set PATH='' @ dll_directory @ '';%PATH%'' @ [CHR 0x0A] @
     [CHR 0x22] @ ''%~dp0.'' @ [CHR 0x5C] @ exe_filename @ [CHR 0x22] @ [CHR 0x0A]"

text \<open>The constant blob, attached on Windows for modules and executables alike.\<close>

definition blob_step :: "env \<Rightarrow> fs \<Rightarrow> string \<Rightarrow> unit outcome" where
  "blob_step env files result_filename =
     (let blob = getConstantBlobFilename env (getSourceDirectoryPath env False)
      in case files blob of
           None \<Rightarrow> ([GetFileContents blob], Inl (Uncaught OSError))
         | Some content \<Rightarrow>
             ([GetFileContents blob, AddResource result_filename RT_RCDATA 0 3 content],
              Inr ()))"

definition windows_step :: "env \<Rightarrow> fs \<Rightarrow> string \<Rightarrow> unit outcome" where
  "windows_step env files result_filename =
     (if isWin32Windows env
      then thn (if \<not> shallMakeModule env
                then executePostProcessingResources env files
                       (if python_version env < 0x300 then getWindowsExecutableManifest env
                        else None)
                       False
                else ret files) (\<lambda>files.
           blob_step env files result_filename)
      else ret ())"

definition macos_step :: "env \<Rightarrow> string \<Rightarrow> event list" where
  "macos_step env result_filename =
     (if getOS env = ''Darwin'' \<and> \<not> shallMakeModule env \<and> \<not> shallUseStaticLibPython env
      then
        (let python_abi_version = python_version_str env @ getPythonABI env;
             python_dll_filename = ''libpython'' @ python_abi_version @ ''.dylib'';
             python_lib_path = path_join env (sys_prefix env) ''lib''
         in [CallInstallNameTool result_filename
               [(python_dll_filename, path_join env python_lib_path python_dll_filename),
                (''@rpath/Python3.framework/Versions/'' @ python_version_str env @ ''/Python3'',
                 path_join env python_lib_path python_dll_filename)]
               python_lib_path])
      else [])"

definition cleanup_step :: "env \<Rightarrow> fs \<Rightarrow> string \<Rightarrow> event list" where
  "cleanup_step env files result_filename =
     (if \<not> isWin32Windows env \<and> shallMakeModule env
      then [RemoveFileExecutablePermission result_filename] else []) @
     (if isWin32Windows env \<and> shallMakeModule env
      then
        (let b = basename env result_filename;
             candidate = path_join env (dirname env result_filename)
                           (''lib'' @ take (length b - 4) b @ ''.a'')
         in if files candidate \<noteq> None then [Unlink candidate] else [])
      else []) @
     (if isWin32Windows env \<and> shallTreatUninstalledPython env
      then
        (let dll_directory = getExternalUsePath env (dirname env (getTargetPythonDLLPath env))
         in [PutTextFileContents (getResultRunFilename env False)
               (cmd_contents dll_directory (basename env result_filename))])
      else [])"

definition executePostProcessing :: "env \<Rightarrow> fs \<Rightarrow> unit outcome" where
  "executePostProcessing env files =
     (let result_filename = getResultFullpath env False
      in if files result_filename = None then sysexit (SconsFailed result_filename)
         else
           thn (windows_step env files result_filename) (\<lambda>_.
           (macos_step env result_filename @ cleanup_step env files result_filename, Inr ())))"

section \<open>Reading a trace\<close>

text \<open>The key under which a call of \<^verbatim>\<open>addResourceToFile\<close> stores its data.\<close>

fun resource_key :: "event \<Rightarrow> (resource_kind \<times> nat \<times> nat) option" where
  "resource_key (AddResource target kind lang_id res_name content) = Some (kind, res_name, lang_id)"
| "resource_key _ = None"

definition resource_keys :: "event list \<Rightarrow> (resource_kind \<times> nat \<times> nat) list" where
  "resource_keys t = List.map_filter resource_key t"

text \<open>
  The \<^verbatim>\<open>id\<close> fields of a group icon resource: behind the 6 bytes of the header, the
  last two bytes of each 14-byte entry.
\<close>

definition ids_of_group :: "byte list \<Rightarrow> 16 word list" where
  "ids_of_group payload =
     map (\<lambda>k. short_of_bytes (take 2 (drop (6 + 14 * k + 12) payload)))
       [0..<(length payload - 6) div 14]"

fun group_ids :: "event \<Rightarrow> 16 word list" where
  "group_ids (AddResource target RT_GROUP_ICON lang_id res_name payload) = ids_of_group payload"
| "group_ids _ = []"

definition emitted_ids :: "event list \<Rightarrow> 16 word list" where
  "emitted_ids t = concat (map group_ids t)"

text \<open>
  The four embedding steps, numbered in the order of the specification: manifest,
  version information, icons, raw data.
\<close>

fun stage :: "event \<Rightarrow> nat option" where
  "stage (ManifestAddResource m target) = Some 0"
| "stage (AddVersionInfoResource strings product file is_exe target) = Some 1"
| "stage (CopyResources template target kinds) = Some 2"
| "stage (AddResource target RT_GROUP_ICON lang_id res_name content) = Some 2"
| "stage (AddResource target RT_ICON lang_id res_name content) = Some 2"
| "stage (AddResource target RT_RCDATA lang_id res_name content) = Some 3"
| "stage _ = None"

definition stages :: "event list \<Rightarrow> nat list" where
  "stages t = List.map_filter stage t"

text \<open>Events that read or write the icon file at a path.\<close>

fun touches :: "string \<Rightarrow> event \<Rightarrow> bool" where
  "touches p (Open q) = (p = q)"
| "touches p (ReadStructure q n) = (p = q)"
| "touches p (Seek q off) = (p = q)"
| "touches p (ReadImage q n) = (p = q)"
| "touches p (ImRead q) = (p = q)"
| "touches p (ImWrite q) = (p = q)"
| "touches p _ = False"

fun reads_image :: "event \<Rightarrow> bool" where
  "reads_image (Seek q off) = True"
| "reads_image (ReadImage q n) = True"
| "reads_image _ = False"

text \<open>
  What the icon loop may do when the result file is \<open>r\<close>: log, read icon files, convert
  them, and add group icons under the name 1 and icons, all with language 0.
\<close>

fun icon_event :: "string \<Rightarrow> event \<Rightarrow> bool" where
  "icon_event r (AddResource target kind lang_id res_name content) =
     (target = r \<and> lang_id = 0 \<and> (kind = RT_GROUP_ICON \<and> res_name = 1 \<or> kind = RT_ICON))"
| "icon_event r (Info m) = True"
| "icon_event r (Open p) = True"
| "icon_event r (ReadStructure p n) = True"
| "icon_event r (Seek p off) = True"
| "icon_event r (ReadImage p n) = True"
| "icon_event r (ImRead p) = True"
| "icon_event r (MakePath p) = True"
| "icon_event r (ImWrite p) = True"
| "icon_event r _ = False"

text \<open>
  A resource is added with language 0, and raw data under the name 27 or 3.
\<close>

fun fixed_ids :: "event \<Rightarrow> bool" where
  "fixed_ids (AddResource target kind lang_id res_name content) =
     (lang_id = 0 \<and> (case kind of RT_RCDATA \<Rightarrow> res_name = 27 \<or> res_name = 3 | _ \<Rightarrow> True))"
| "fixed_ids _ = True"

section \<open>A small configuration\<close>

text \<open>
  An icon file as it lies on disk: header, directory, then the image bytes.
\<close>

definition entry_memory :: "IconDirectoryEntry \<Rightarrow> byte list" where
  "entry_memory e =
     struct_image None
       (zip IconDirectoryEntry_fields
          [[width e], [height e], [colors e], [reserved e],
           bytes_of_short (planes e), bytes_of_short (bit_count e),
           bytes_of_int (image_size e), bytes_of_int (image_offset e)])"

definition ico_file :: "IconDirectoryHeader \<Rightarrow> IconDirectoryEntry list \<Rightarrow> byte list \<Rightarrow> byte list" where
  "ico_file h es body = header_memory h @ concat (map entry_memory es) @ body"

text \<open>Decimal numbers with an optional minus sign, a part of what \<^verbatim>\<open>int()\<close> accepts.\<close>

fun decimal_digits :: "string \<Rightarrow> nat \<Rightarrow> nat option" where
  "decimal_digits [] acc = Some acc"
| "decimal_digits (c # cs) acc =
     (case map_of (zip ''0123456789'' [0, 1, 2, 3, 4, 5, 6, 7, 8, 9]) c of
        None \<Rightarrow> None
      | Some d \<Rightarrow> decimal_digits cs (10 * acc + d))"

definition decimal :: "string \<Rightarrow> int option" where
  "decimal s =
     (case s of
        [] \<Rightarrow> None
      | c # cs \<Rightarrow>
          if c = CHR ''-''
          then (if cs = [] then None else map_option (\<lambda>n. - int n) (decimal_digits cs 0))
          else map_option int (decimal_digits s 0))"

definition sample_icon :: "nat \<Rightarrow> nat \<Rightarrow> nat \<Rightarrow> IconDirectoryEntry" where
  "sample_icon w len off =
     \<lparr>width = word_of_nat w, height = word_of_nat w, colors = 0, reserved = 0, planes = 1,
      bit_count = 32, image_size = word_of_nat len, image_offset = word_of_nat off\<rparr>"

text \<open>Two images, of 3 and 2 bytes, behind a header and a directory of 6 + 2 * 16 bytes.\<close>

definition two_icons :: "byte list" where
  "two_icons =
     ico_file \<lparr>hdr_reserved = 0, hdr_type = 1, hdr_count = 2\<rparr>
       [sample_icon 16 3 38, sample_icon 32 2 41] [1, 2, 3, 4, 5]"

definition one_icon :: "byte list" where
  "one_icon =
     ico_file \<lparr>hdr_reserved = 0, hdr_type = 1, hdr_count = 1\<rparr> [sample_icon 48 1 22] [9]"

definition sample_files :: fs where
  "sample_files =
     [''app.exe'' \<mapsto> [77, 90], ''a.ico'' \<mapsto> two_icons, ''b.ico'' \<mapsto> one_icon,
      ''build/__constants.bin'' \<mapsto> [7, 7, 7], ''splash.png'' \<mapsto> [5]]"

definition sample_env :: env where
  "sample_env =
     \<lparr>py_int = decimal, normcase = (\<lambda>p. p), path_join = (\<lambda>a b. a @ ''/'' @ b),
      dirname = (\<lambda>p. ''.''), basename = (\<lambda>p. p), beyond_chunk = (\<lambda>chunk k. 0),
      imageio_installed = True, imread = (\<lambda>files p. Inl ValueError), imwrite = (\<lambda>img. img),
      isWin32Windows = True, getOS = ''Windows'', python_version = 0x390,
      python_version_str = ''3.9'', getPythonABI = [], sys_prefix = ''C:/Python39'',
      getTargetPythonDLLPath = ''C:/Python39/python39.dll'', getExternalUsePath = (\<lambda>p. p),
      getConstantBlobFilename = (\<lambda>d. d @ ''/__constants.bin''),
      getDefaultWindowsExecutableManifest =
        \<lparr>m_document = ''default'', m_uac_admin = False, m_uac_ui_access = False\<rparr>,
      getWindowsExecutableManifest = None,
      copyResourcesFromFileToFile = (\<lambda>files template target. 0),
      getIconPaths = [''a.ico'', ''b.ico''], getResultFullpath = (\<lambda>onefile. ''app.exe''),
      getSourceDirectoryPath = (\<lambda>onefile. ''build''),
      getResultRunFilename = (\<lambda>onefile. ''app.cmd''),
      shallAskForWindowsAdminRights = True, shallAskForWindowsUIAccessRights = False,
      getWindowsVersionInfoStrings = [(''ProductName'', ''app'')],
      getWindowsProductVersion = None, getWindowsFileVersion = None,
      shallMakeModule = False, getWindowsIconExecutablePath = None,
      getWindowsSplashScreen = Some ''splash.png'', shallUseStaticLibPython = False,
      shallTreatUninstalledPython = False\<rparr>"

text \<open>
  Variations: a library module, a template executable, an icon file whose header has
  type 2, one that ends in the middle of its directory, and a host without imageio.
\<close>

definition module_env :: env where
  "module_env = sample_env\<lparr>shallMakeModule := True\<rparr>"

definition template_env :: env where
  "template_env = sample_env\<lparr>getWindowsIconExecutablePath := Some ''template.exe''\<rparr>"

definition bad_type_icon :: "byte list" where
  "bad_type_icon =
     ico_file \<lparr>hdr_reserved = 0, hdr_type = 2, hdr_count = 1\<rparr> [sample_icon 48 1 22] [9]"

definition truncated_icon :: "byte list" where
  "truncated_icon = take 10 one_icon"

definition no_imageio_env :: env where
  "no_imageio_env = sample_env\<lparr>imageio_installed := False\<rparr>"

text \<open>
  Two icon files with 2 and 3 entries, and a run over 32767 + 32767 + 2 entries: the
  count field of a header is a signed 16-bit number, so one file holds at most 32767.
\<close>

definition three_icons :: "byte list" where
  "three_icons =
     ico_file \<lparr>hdr_reserved = 0, hdr_type = 1, hdr_count = 3\<rparr>
       [sample_icon 16 1 54, sample_icon 32 1 55, sample_icon 48 1 56] [6, 7, 8]"

definition two_three_files :: fs where
  "two_three_files = sample_files(''c.ico'' \<mapsto> three_icons)"

definition two_three_env :: env where
  "two_three_env = sample_env\<lparr>getIconPaths := [''a.ico'', ''c.ico'']\<rparr>"

definition big_entries :: "IconDirectoryEntry list" where
  "big_entries = replicate 32767 (sample_icon 1 0 0)"

definition big_icon :: "byte list" where
  "big_icon = ico_file \<lparr>hdr_reserved = 0, hdr_type = 1, hdr_count = 32767\<rparr> big_entries []"

definition big_files :: fs where
  "big_files = sample_files(''big.ico'' \<mapsto> big_icon)"

definition big_env :: env where
  "big_env = sample_env\<lparr>getIconPaths := [''big.ico'', ''big.ico'', ''a.ico'']\<rparr>"

section \<open>Properties\<close>

subsection \<open>Byte order\<close>

lemma short_of_bytes_of_short: "short_of_bytes (bytes_of_short w) = w"
  unfolding short_of_bytes_def bytes_of_short_def
  by (rule bit_word_eqI) (auto simp: bit_simps)

lemma int_of_bytes_of_int: "int_of_bytes (bytes_of_int w) = w"
proof (rule bit_word_eqI)
  fix n assume n: "n < LENGTH(32)"
  consider "n < 8" | "8 \<le> n" "n < 16" | "16 \<le> n" "n < 24" | "24 \<le> n" "n < 32"
    using n by fastforce
  then show "bit (int_of_bytes (bytes_of_int w)) n = bit w n"
    by cases (auto simp: int_of_bytes_def bytes_of_int_def bit_simps)
qed

lemma length_bytes_of_short: "length (bytes_of_short w) = 2"
  by (simp add: bytes_of_short_def)

lemma length_bytes_of_int: "length (bytes_of_int w) = 4"
  by (simp add: bytes_of_int_def)

subsection \<open>Layout of the structures\<close>

lemma sizeof_IconDirectoryHeader: "sizeof None IconDirectoryHeader_fields = 6"
  by code_simp

lemma sizeof_IconDirectoryEntry: "sizeof None IconDirectoryEntry_fields = 16"
  by code_simp

lemma sizeof_IconGroupDirectoryEntry:
  "sizeof IconGroupDirectoryEntry_pack IconGroupDirectoryEntry_fields = 14"
  by code_simp

text \<open>Without \<^verbatim>\<open>_pack_ = 2\<close> the same fields take 16 bytes: two bytes of padding at the end.\<close>

lemma sizeof_group_entry_unpacked: "sizeof None IconGroupDirectoryEntry_fields = 16"
  by code_simp

lemma offsets_IconDirectoryHeader:
  "field_offsets None 0 IconDirectoryHeader_fields = [0, 2, 4]"
  by (simp add: field_align_def IconDirectoryHeader_fields_def align_up_def)

lemma offsets_IconDirectoryEntry:
  "field_offsets None 0 IconDirectoryEntry_fields = [0, 1, 2, 3, 4, 6, 8, 12]"
  by (simp add: field_align_def IconDirectoryEntry_fields_def align_up_def)

lemma offsets_IconGroupDirectoryEntry:
  "field_offsets IconGroupDirectoryEntry_pack 0 IconGroupDirectoryEntry_fields =
     [0, 1, 2, 3, 4, 6, 8, 12]"
  by (simp add: field_align_def IconGroupDirectoryEntry_fields_def
      IconGroupDirectoryEntry_pack_def align_up_def)

lemma header_memory_eq:
  "header_memory h =
     bytes_of_short (hdr_reserved h) @ bytes_of_short (hdr_type h) @
     bytes_of_short (hdr_count h)"
  by (simp add: header_memory_def struct_image_def sizeof_IconDirectoryHeader
      [unfolded IconDirectoryHeader_fields_def] IconDirectoryHeader_fields_def
      field_align_def align_up_def length_bytes_of_short)

lemma group_entry_memory_eq:
  "group_entry_memory g =
     [g_width g, g_height g, g_colors g, g_reserved g] @
     bytes_of_short (g_planes g) @ bytes_of_short (g_bit_count g) @
     bytes_of_int (g_image_size g) @ bytes_of_short (g_id g)"
  by (simp add: group_entry_memory_def struct_image_def
      sizeof_IconGroupDirectoryEntry
      [unfolded IconGroupDirectoryEntry_fields_def IconGroupDirectoryEntry_pack_def]
      IconGroupDirectoryEntry_fields_def IconGroupDirectoryEntry_pack_def
      field_align_def align_up_def length_bytes_of_short length_bytes_of_int)

subsection \<open>The packed group entry\<close>

text \<open>
  C2, as stated: the serialized \<^verbatim>\<open>IconGroupDirectoryEntry\<close> has exactly 12 bytes. It does
  not: the fields are 1 + 1 + 1 + 1 + 2 + 2 + 4 + 2 bytes wide, and the entry made from
  the first sample icon with \<^verbatim>\<open>id\<close> 1 is 14 bytes long.
\<close>

theorem group_entry_is_not_12_bytes:
  "length (convertStructureToBytes_group (make_group_entry (sample_icon 16 3 38) 1)) \<noteq> 12"
  by (simp add: convertStructureToBytes_group_def group_entry_memory_eq
      length_bytes_of_short length_bytes_of_int)

text \<open>
  C2, amended: for every field assignment the serialized \<^verbatim>\<open>IconGroupDirectoryEntry\<close> has
  exactly 14 bytes: \<^verbatim>\<open>width\<close>, \<^verbatim>\<open>height\<close>, \<^verbatim>\<open>colors\<close>, \<^verbatim>\<open>reserved\<close>, \<^verbatim>\<open>planes\<close>,
  \<^verbatim>\<open>bit_count\<close>, \<^verbatim>\<open>image_size\<close> and \<^verbatim>\<open>id\<close> follow each other with no padding byte
  between or behind them, each with its low byte first.
\<close>

theorem group_entry_packed_layout:
  "convertStructureToBytes_group g =
     [g_width g, g_height g, g_colors g, g_reserved g,
      ucast (g_planes g), ucast (drop_bit 8 (g_planes g)),
      ucast (g_bit_count g), ucast (drop_bit 8 (g_bit_count g)),
      ucast (g_image_size g), ucast (drop_bit 8 (g_image_size g)),
      ucast (drop_bit 16 (g_image_size g)), ucast (drop_bit 24 (g_image_size g)),
      ucast (g_id g), ucast (drop_bit 8 (g_id g))] \<and>
   length (convertStructureToBytes_group g) = 14"
  by (simp add: convertStructureToBytes_group_def group_entry_memory_eq
      bytes_of_short_def bytes_of_int_def)

subsection \<open>Outcomes, slices and the index filter\<close>

lemma thn_Inl: "thn (t, Inl e) f = (t, Inl e)"
  by (simp add: thn_def)

lemma thn_Inr: "thn (t, Inr x) f = (t @ fst (f x), snd (f x))"
  by (simp add: thn_def split: prod.splits)

lemma thn_ret: "thn (ret x) f = f x"
  by (simp add: thn_def ret_def split: prod.splits)

lemma thn_sysexit: "thn (sysexit e) f = sysexit e"
  by (simp add: thn_def sysexit_def)

lemma thn_emit: "thn (emit ev) f = (ev # fst (f ()), snd (f ()))"
  by (simp add: thn_def emit_def split: prod.splits)

lemma fst_thn: "fst (thn m f) = fst m @ (case snd m of Inl e \<Rightarrow> [] | Inr x \<Rightarrow> fst (f x))"
  by (cases m) (auto simp: thn_def split: sum.splits prod.splits)

lemma snd_thn: "snd (thn m f) = (case snd m of Inl e \<Rightarrow> Inl e | Inr x \<Rightarrow> snd (f x))"
  by (cases m) (auto simp: thn_def split: sum.splits prod.splits)

lemma py_slice_index:
  "0 \<le> i \<Longrightarrow> i < int (length xs) \<Longrightarrow> py_slice xs i (i + 1) = [xs ! nat i]"
  by (simp add: py_slice_def Let_def min_def take_Suc_conv_app_nth hd_drop_conv_nth take_Suc)

lemma py_slice_at_length: "py_slice xs (int (length xs)) (int (length xs) + 1) = []"
  by (simp add: py_slice_def Let_def)

lemma select_icons_at_count:
  "select_icons icon_path (Some (int (length icons))) icons = ([], Inr [])"
  by (simp add: select_icons_def py_slice_at_length ret_def)

lemma select_icons_in_range:
  "0 \<le> i \<Longrightarrow> i < int (length icons) \<Longrightarrow>
   select_icons icon_path (Some i) icons = ([], Inr [icons ! nat i])"
  by (simp add: select_icons_def py_slice_index ret_def)

lemma select_icons_beyond:
  "int (length icons) < i \<Longrightarrow>
   select_icons icon_path (Some i) icons =
     ([], Inl (IconIndexOutOfRange i icon_path (length icons)))"
  by (simp add: select_icons_def sysexit_def)

lemma readFromFile_entry_facts:
  assumes "readFromFile_entry env f = (t, icon, f')"
  shows "t = [ReadStructure (s_name f) 16]" "s_name f' = s_name f" "s_data f' = s_data f"
  using assms
  by (auto simp: readFromFile_entry_def readFromFile_def Let_def sizeof_IconDirectoryEntry)

lemma readFromFile_header_facts:
  assumes "readFromFile_header env f = (t, header, f')"
  shows "t = [ReadStructure (s_name f) 6]" "s_name f' = s_name f" "s_data f' = s_data f"
  using assms
  by (auto simp: readFromFile_header_def readFromFile_def Let_def sizeof_IconDirectoryHeader)

lemma read_entries_facts:
  assumes "read_entries env f k = (t, icons, f')"
  shows "length icons = k \<and> t = replicate k (ReadStructure (s_name f) 16) \<and>
         s_name f' = s_name f \<and> s_data f' = s_data f"
  using assms
proof (induction k arbitrary: f t icons f')
  case 0
  then show ?case by simp
next
  case (Suc k)
  obtain t1 icon f1 where a: "readFromFile_entry env f = (t1, icon, f1)"
    by (cases "readFromFile_entry env f") auto
  obtain t2 rest f2 where b: "read_entries env f1 k = (t2, rest, f2)"
    by (cases "read_entries env f1 k") auto
  from Suc.prems a b have c: "t = t1 @ t2" "icons = icon # rest" "f' = f2"
    by simp_all
  from Suc.IH [OF b] readFromFile_entry_facts [OF a] c show ?case
    by simp
qed

subsection \<open>The events of the icon loop\<close>

lemma fst_parse_icon_spec: "fst (parse_icon_spec env icon_spec) = []"
  by (simp add: parse_icon_spec_def ret_def sysexit_def split: prod.splits option.splits)

lemma convert_icon_events:
  "list_all (icon_event r) (fst (convert_icon env onefile files image_id icon_spec icon_path icon_index))"
  by (simp add: convert_icon_def ret_def sysexit_def thn_emit Let_def
      split: sum.splits py_exception.splits)

lemma read_images_events: "list_all (icon_event r) (fst (read_images f icons))"
  by (induction icons) (auto simp: Let_def split: prod.splits)

lemma read_images_result:
  "case snd (read_images f icons) of
     Inl e \<Rightarrow> e = Uncaught OSError \<or> e = Uncaught ValueError
   | Inr images \<Rightarrow> length images = length icons"
  by (induction icons) (auto simp: Let_def split: prod.splits sum.splits)

lemma read_icon_file_events:
  "list_all (icon_event r) (fst (read_icon_file env files icon_spec icon_path icon_index))"
proof (cases "files icon_path")
  case None
  then show ?thesis by (simp add: read_icon_file_def)
next
  case (Some content)
  obtain t1 header f1 where a:
    "readFromFile_header env \<lparr>s_name = icon_path, s_data = content, s_pos = 0\<rparr> = (t1, header, f1)"
    using prod_cases3 by blast
  obtain t2 icons f2 where b:
    "read_entries env f1 (nat (sint (hdr_count header))) = (t2, icons, f2)"
    using prod_cases3 by blast
  have t1: "list_all (icon_event r) t1"
    using readFromFile_header_facts(1) [OF a] by simp
  have t2: "list_all (icon_event r) t2"
    using read_entries_facts [OF b] by (simp add: list_all_iff)
  show ?thesis
    using Some a b t1 t2 read_images_events [of r f2]
    by (auto simp: read_icon_file_def thn_Inr thn_emit fst_thn select_icons_def ret_def
        sysexit_def split: option.splits sum.splits)
qed

lemma add_icon_spec_events:
  "list_all (icon_event (getResultFullpath env onefile))
     (fst (add_icon_spec env onefile 1 files image_id icon_spec))"
  unfolding add_icon_spec_def
  using convert_icon_events read_icon_file_events
  by (auto simp: fst_thn fst_parse_icon_spec emit_def ret_def split: sum.splits prod.splits)

lemma icon_loop_events:
  "list_all (icon_event (getResultFullpath env onefile))
     (fst (icon_loop env onefile 1 files image_id images specs))"
proof (induction specs arbitrary: files image_id images)
  case Nil
  then show ?case by simp
next
  case (Cons icon_spec specs)
  obtain t r where a: "add_icon_spec env onefile 1 files image_id icon_spec = (t, r)"
    by (cases "add_icon_spec env onefile 1 files image_id icon_spec") auto
  have t: "list_all (icon_event (getResultFullpath env onefile)) t"
    using add_icon_spec_events [of env onefile files image_id icon_spec] a by simp
  show ?case
  proof (cases r)
    case (Inl e)
    with a t show ?thesis by simp
  next
    case (Inr v)
    obtain new_images image_id' files' where v: "v = (new_images, image_id', files')"
      by (cases v) auto
    obtain t' r' where b:
      "icon_loop env onefile 1 files' image_id' (images @ new_images) specs = (t', r')"
      by (cases "icon_loop env onefile 1 files' image_id' (images @ new_images) specs") auto
    have "list_all (icon_event (getResultFullpath env onefile)) t'"
      using Cons.IH [of files' image_id' "images @ new_images"] b by simp
    with a t Inr v b show ?thesis by simp
  qed
qed

lemma add_images_events: "list_all (icon_event r) (add_images r images)"
  by (simp add: add_images_def list_all_iff split: prod.splits)

lemma addWindowsIconFromIcons_events:
  "list_all (icon_event (getResultFullpath env onefile))
     (fst (addWindowsIconFromIcons env files onefile))"
  using icon_loop_events [of env onefile files 1 "[]" "getIconPaths env"]
  by (auto simp: addWindowsIconFromIcons_def fst_thn add_images_events split: sum.splits)

subsection \<open>The order of the embedding steps\<close>

lemma icon_event_stage: "icon_event r ev \<Longrightarrow> stage ev = None \<or> stage ev = Some 2"
  by (cases ev) auto

lemma stages_Nil: "stages [] = []"
  by (simp add: stages_def List.map_filter_def)

lemma stages_Cons:
  "stages (ev # t) = (case stage ev of None \<Rightarrow> stages t | Some k \<Rightarrow> k # stages t)"
  by (simp add: stages_def List.map_filter_def split: option.splits)

lemma stages_icon_events: "list_all (icon_event r) t \<Longrightarrow> set (stages t) \<subseteq> {2}"
proof (induction t)
  case Nil
  then show ?case by (simp add: stages_Nil)
next
  case (Cons ev t)
  then have "set (stages t) \<subseteq> {2}" by simp
  moreover have "stage ev = None \<or> stage ev = Some 2"
    using Cons.prems icon_event_stage [of r ev] by simp
  ultimately show ?case
    by (auto simp: stages_Cons)
qed

lemma stages_append: "stages (a @ b) = stages a @ stages b"
  by (simp add: stages_def List.map_filter_def)

lemma stages_manifest_step: "set (stages (manifest_step env manifest r)) \<subseteq> {0}"
  by (simp add: manifest_step_def stages_Cons stages_Nil Let_def split: option.splits)

lemma stages_version_step: "set (stages (version_step env r)) \<subseteq> {1}"
  by (simp add: version_step_def stages_Cons stages_Nil)

lemma stages_icon_step: "set (stages (fst (icon_step env files onefile))) \<subseteq> {2}"
proof (cases "getWindowsIconExecutablePath env")
  case None
  then show ?thesis
    using stages_icon_events [OF addWindowsIconFromIcons_events [of env onefile files]]
    by (simp add: icon_step_def)
next
  case (Some a)
  then show ?thesis
    by (simp add: icon_step_def Let_def stages_Cons stages_Nil)
qed

lemma stages_splash_step: "set (stages (fst (splash_step env files r))) \<subseteq> {3}"
  by (simp add: splash_step_def stages_Cons stages_Nil ret_def split: option.splits)

lemma stages_blob_step: "set (stages (fst (blob_step env files r))) \<subseteq> {3}"
  by (simp add: blob_step_def stages_Cons stages_Nil Let_def split: option.splits)

lemma stages_macos_step: "stages (macos_step env r) = []"
  by (simp add: macos_step_def stages_Cons stages_Nil Let_def)

lemma stages_cleanup_step: "stages (cleanup_step env files r) = []"
  by (simp add: cleanup_step_def stages_Cons stages_Nil stages_append Let_def)

lemma sorted_const: "set xs \<subseteq> {k} \<Longrightarrow> sorted (xs :: nat list)"
  by (induction xs) auto

lemma sorted_four:
  fixes a b c d :: "nat list"
  assumes "set a \<subseteq> {0}" "set b \<subseteq> {1}" "set c \<subseteq> {2}" "set d \<subseteq> {3}"
  shows "sorted (a @ b @ c @ d) \<and> set (a @ b @ c @ d) \<subseteq> {0, 1, 2, 3}"
proof -
  have s: "sorted a" "sorted b" "sorted c" "sorted d"
    using assms sorted_const by blast+
  have e: "\<And>x. x \<in> set a \<Longrightarrow> x = 0" "\<And>x. x \<in> set b \<Longrightarrow> x = 1"
    "\<And>x. x \<in> set c \<Longrightarrow> x = 2" "\<And>x. x \<in> set d \<Longrightarrow> x = 3"
    using assms by blast+
  have "sorted (c @ d)"
    using s e by (fastforce simp: sorted_append)
  then have "sorted (b @ c @ d)"
    using s e by (fastforce simp: sorted_append)
  then have "sorted (a @ b @ c @ d)"
    using s e by (fastforce simp: sorted_append)
  moreover have "set (a @ b @ c @ d) \<subseteq> {0, 1, 2, 3}"
    using e by fastforce
  ultimately show ?thesis by simp
qed

lemma stages_resources:
  "sorted (stages (fst (executePostProcessingResources env files manifest onefile))) \<and>
   set (stages (fst (executePostProcessingResources env files manifest onefile))) \<subseteq> {0, 1, 2, 3}"
proof -
  let ?r = "getResultFullpath env onefile"
  let ?a = "stages (manifest_step env manifest ?r)"
  let ?b = "stages (version_step env ?r)"
  let ?c = "stages (fst (icon_step env files onefile))"
  have "\<exists>d. set d \<subseteq> {3} \<and>
      stages (fst (executePostProcessingResources env files manifest onefile)) = ?a @ ?b @ ?c @ d"
  proof (cases "snd (icon_step env files onefile)")
    case (Inl e)
    then have "stages (fst (executePostProcessingResources env files manifest onefile)) = ?a @ ?b @ ?c @ []"
      by (simp add: executePostProcessingResources_def Let_def fst_thn stages_append)
    then show ?thesis by (intro exI [of _ "[]"]) simp
  next
    case (Inr files')
    then have "stages (fst (executePostProcessingResources env files manifest onefile)) =
        ?a @ ?b @ ?c @ stages (fst (splash_step env files' ?r))"
      by (simp add: executePostProcessingResources_def Let_def fst_thn stages_append ret_def
          stages_Nil split: sum.splits)
    then show ?thesis
      using stages_splash_step by (intro exI [of _ "stages (fst (splash_step env files' ?r))"]) simp
  qed
  then obtain d where d: "set d \<subseteq> {3}"
    "stages (fst (executePostProcessingResources env files manifest onefile)) = ?a @ ?b @ ?c @ d"
    by blast
  show ?thesis
    unfolding d(2)
    by (rule sorted_four [OF stages_manifest_step stages_version_step stages_icon_step d(1)])
qed

lemma sorted_then_three:
  fixes xs d :: "nat list"
  assumes "sorted xs \<and> set xs \<subseteq> {0, 1, 2, 3}" "set d \<subseteq> {3}"
  shows "sorted (xs @ d)"
proof -
  have "sorted d" using assms(2) sorted_const by blast
  moreover have "\<forall>x\<in>set xs. x \<le> 3" using assms(1) by auto
  moreover have "\<forall>y\<in>set d. y = 3" using assms(2) by blast
  ultimately show ?thesis using assms(1) by (auto simp: sorted_append)
qed

lemma stages_windows_step: "sorted (stages (fst (windows_step env files r)))"
proof (cases "isWin32Windows env")
  case False
  then show ?thesis by (simp add: windows_step_def ret_def stages_Nil)
next
  case win: True
  show ?thesis
  proof (cases "shallMakeModule env")
    case True
    then show ?thesis
      using win sorted_const [OF stages_blob_step [of env files r]]
      by (simp add: windows_step_def thn_ret)
  next
    case False
    let ?m = "if python_version env < 0x300 then getWindowsExecutableManifest env else None"
    let ?e = "executePostProcessingResources env files ?m False"
    show ?thesis
    proof (cases "snd ?e")
      case (Inl e)
      then have "stages (fst (windows_step env files r)) = stages (fst ?e)"
        using win False by (simp add: windows_step_def fst_thn)
      then show ?thesis using stages_resources by simp
    next
      case (Inr files')
      then have "stages (fst (windows_step env files r)) =
          stages (fst ?e) @ stages (fst (blob_step env files' r))"
        using win False by (simp add: windows_step_def fst_thn stages_append)
      then show ?thesis
        using sorted_then_three [OF stages_resources stages_blob_step] by simp
    qed
  qed
qed

text \<open>
  C8: in every run of the post-processing the embedding steps come in the order manifest,
  version information, icons, raw data: the stage numbers of the events, in the order
  the events happen, never decrease. The splash screen and the constant blob are both raw
  data and both come after the icons.
\<close>

theorem resource_steps_in_order: "sorted (stages (fst (executePostProcessing env files)))"
proof (cases "files (getResultFullpath env False)")
  case None
  then show ?thesis
    by (simp add: executePostProcessing_def Let_def sysexit_def stages_Nil)
next
  case (Some content)
  let ?r = "getResultFullpath env False"
  have "stages (fst (executePostProcessing env files)) = stages (fst (windows_step env files ?r))"
    using Some
    by (simp add: executePostProcessing_def Let_def fst_thn stages_append stages_macos_step
        stages_cleanup_step stages_Nil split: sum.splits)
  then show ?thesis using stages_windows_step by simp
qed

subsection \<open>Fixed identifiers, modules and templates\<close>

lemma icon_event_fixed_ids: "icon_event r ev \<Longrightarrow> fixed_ids ev"
  by (cases ev) auto

lemma fixed_ids_icon_step: "list_all fixed_ids (fst (icon_step env files onefile))"
proof (cases "getWindowsIconExecutablePath env")
  case None
  then show ?thesis
    using addWindowsIconFromIcons_events [of env onefile files] icon_event_fixed_ids
    by (auto simp: icon_step_def list_all_iff)
next
  case (Some a)
  then show ?thesis by (simp add: icon_step_def Let_def)
qed

lemma fixed_ids_resources:
  "list_all fixed_ids (fst (executePostProcessingResources env files manifest onefile))"
  using fixed_ids_icon_step [of env files onefile]
  by (auto simp: executePostProcessingResources_def Let_def fst_thn manifest_step_def
      version_step_def splash_step_def ret_def split: sum.splits option.splits)

lemma fixed_ids_windows_step: "list_all fixed_ids (fst (windows_step env files r))"
  using fixed_ids_resources
  by (auto simp: windows_step_def fst_thn blob_step_def Let_def ret_def
      split: sum.splits option.splits)

text \<open>
  C10: every call of \<^verbatim>\<open>addResourceToFile\<close> in a run of the post-processing passes
  language 0, and every raw-data resource is added under the name 27 (the splash screen)
  or 3 (the constant blob). The manifest, the version information and the resources
  copied from a template are written by functions outside this module.
\<close>

theorem resources_use_fixed_ids: "list_all fixed_ids (fst (executePostProcessing env files))"
  using fixed_ids_windows_step [of env files "getResultFullpath env False"]
  by (auto simp: executePostProcessing_def Let_def sysexit_def fst_thn macos_step_def
      cleanup_step_def split: sum.splits)

text \<open>
  Witness for C10: the sample run adds seven resources, all with language 0, the splash
  screen under 27 and the blob under 3.
\<close>

theorem resources_use_fixed_ids_witness:
  "list_all fixed_ids (fst (executePostProcessing sample_env sample_files)) \<and>
   resource_keys (fst (executePostProcessing sample_env sample_files)) =
     [(RT_GROUP_ICON, 1, 0), (RT_GROUP_ICON, 1, 0), (RT_ICON, 1, 0), (RT_ICON, 2, 0),
      (RT_ICON, 3, 0), (RT_RCDATA, 27, 0), (RT_RCDATA, 3, 0)]"
proof -
  have "resource_keys (fst (executePostProcessing sample_env sample_files)) =
     [(RT_GROUP_ICON, 1, 0), (RT_GROUP_ICON, 1, 0), (RT_ICON, 1, 0), (RT_ICON, 2, 0),
      (RT_ICON, 3, 0), (RT_RCDATA, 27, 0), (RT_RCDATA, 3, 0)]"
    by code_simp
  then show ?thesis
    using resources_use_fixed_ids [of sample_env sample_files] by simp
qed

text \<open>
  C9: on Windows, when a library module is built and the result file and the constant
  blob exist, the only embedding step that happens is the constant blob, added to the
  result file as raw data under the name 3: no manifest, no version information, no
  icon and no splash screen.
\<close>

theorem module_gets_only_the_blob:
  assumes "isWin32Windows env" and "shallMakeModule env"
    and "files (getResultFullpath env False) \<noteq> None"
    and "files (getConstantBlobFilename env (getSourceDirectoryPath env False)) = Some content"
  shows "filter (\<lambda>ev. stage ev \<noteq> None) (fst (executePostProcessing env files)) =
           [AddResource (getResultFullpath env False) RT_RCDATA 0 3 content]"
  using assms
  by (auto simp: executePostProcessing_def Let_def windows_step_def thn_ret fst_thn blob_step_def
      macos_step_def cleanup_step_def split: sum.splits)

text \<open>Witness for C9: the sample configuration with \<^verbatim>\<open>shallMakeModule\<close> set.\<close>

theorem module_gets_only_the_blob_witness:
  "isWin32Windows module_env \<and> shallMakeModule module_env \<and>
   sample_files (getResultFullpath module_env False) \<noteq> None \<and>
   sample_files (getConstantBlobFilename module_env (getSourceDirectoryPath module_env False)) =
     Some [7, 7, 7] \<and>
   filter (\<lambda>ev. stage ev \<noteq> None) (fst (executePostProcessing module_env sample_files)) =
     [AddResource ''app.exe'' RT_RCDATA 0 3 [7, 7, 7]]"
proof -
  have h: "isWin32Windows module_env" "shallMakeModule module_env"
    "sample_files (getResultFullpath module_env False) \<noteq> None"
    "sample_files (getConstantBlobFilename module_env (getSourceDirectoryPath module_env False)) =
     Some [7, 7, 7]"
    by (simp_all add: module_env_def sample_env_def sample_files_def)
  have r: "getResultFullpath module_env False = ''app.exe''"
    by (simp add: module_env_def sample_env_def)
  show ?thesis
    using h module_gets_only_the_blob [OF h] by (simp add: r)
qed

text \<open>
  C7: when a template executable is configured, the icon step is the copy of the icon
  and group icon resources from it and one warning, and nothing is built from icon
  files; the warning says that nothing was copied when the count is 0. Whatever the
  count, the run goes on with the splash screen, and fails only if that step fails.
\<close>

theorem template_replaces_icon_files:
  assumes "getWindowsIconExecutablePath env = Some template_exe"
  shows "fst (executePostProcessingResources env files manifest onefile) =
           manifest_step env manifest (getResultFullpath env onefile) @
           version_step env (getResultFullpath env onefile) @
           [CopyResources template_exe (getResultFullpath env onefile) [RT_ICON, RT_GROUP_ICON],
            Warning
              (if copyResourcesFromFileToFile env files template_exe
                    (getResultFullpath env onefile) = 0
               then TemplateEmpty template_exe
               else CopiedIcons
                      (copyResourcesFromFileToFile env files template_exe
                         (getResultFullpath env onefile)) template_exe)] @
           fst (splash_step env files (getResultFullpath env onefile)) \<and>
         snd (executePostProcessingResources env files manifest onefile) =
           (case snd (splash_step env files (getResultFullpath env onefile)) of
              Inl e \<Rightarrow> Inl e
            | Inr u \<Rightarrow> Inr files)"
  using assms
  by (auto simp: executePostProcessingResources_def Let_def fst_thn snd_thn icon_step_def ret_def
      split: sum.splits)

text \<open>
  Witness for C7: a template that yields no resource; the run warns, adds the splash
  screen and ends without an error.
\<close>

theorem template_replaces_icon_files_witness:
  "getWindowsIconExecutablePath template_env = Some ''template.exe'' \<and>
   fst (executePostProcessingResources template_env sample_files None False) =
     [ManifestAddResource
        \<lparr>m_document = ''default'', m_uac_admin = True, m_uac_ui_access = False\<rparr> ''app.exe'',
      AddVersionInfoResource [(''ProductName'', ''app'')] None None True ''app.exe'',
      CopyResources ''template.exe'' ''app.exe'' [RT_ICON, RT_GROUP_ICON],
      Warning (TemplateEmpty ''template.exe''),
      GetFileContents ''splash.png'',
      AddResource ''app.exe'' RT_RCDATA 0 27 [5]] \<and>
   snd (executePostProcessingResources template_env sample_files None False) = Inr sample_files"
proof -
  have h: "getWindowsIconExecutablePath template_env = Some ''template.exe''"
    by (simp add: template_env_def sample_env_def)
  show ?thesis
    using h template_replaces_icon_files [OF h, of sample_files None False]
    by (simp add: template_env_def sample_env_def sample_files_def manifest_step_def
        version_step_def splash_step_def addUacAdmin_def Let_def)
qed

subsection \<open>Icon specifications and the reading of icon files\<close>

text \<open>
  C6: for an icon specification whose path does not end in \<^verbatim>\<open>.ico\<close>: with an index
  the run stops with the error about indexes, having only logged a message, before any
  access to the icon file; without an index and without imageio it stops with the error
  that names imageio; without an index, with imageio, when \<^verbatim>\<open>imread\<close> raises
  \<^verbatim>\<open>ValueError\<close>, it stops with the error about the unsupported format.
\<close>

theorem non_ico_failures:
  "(CHR ''#'' \<in> set icon_spec \<longrightarrow> rsplit_hash icon_spec = (icon_path, digits) \<longrightarrow>
      py_int env digits = Some i \<longrightarrow> \<not> endswith (normcase env icon_path) ''.ico'' \<longrightarrow>
      add_icon_spec env onefile icon_group files image_id icon_spec =
        ([Info NotInIconFormat], Inl (CannotSpecifyIndexes icon_spec))) \<and>
   (CHR ''#'' \<notin> set icon_spec \<longrightarrow> \<not> endswith (normcase env icon_spec) ''.ico'' \<longrightarrow>
      \<not> imageio_installed env \<longrightarrow>
      add_icon_spec env onefile icon_group files image_id icon_spec =
        ([Info NotInIconFormat], Inl (NeedImageio icon_spec))) \<and>
   (CHR ''#'' \<notin> set icon_spec \<longrightarrow> \<not> endswith (normcase env icon_spec) ''.ico'' \<longrightarrow>
      imageio_installed env \<longrightarrow> imread env files (normcase env icon_spec) = Inl ValueError \<longrightarrow>
      add_icon_spec env onefile icon_group files image_id icon_spec =
        ([Info NotInIconFormat, ImRead (normcase env icon_spec)],
         Inl (UnsupportedFileFormat icon_spec)))"
  by (simp add: add_icon_spec_def parse_icon_spec_def convert_icon_def thn_ret thn_emit
      thn_sysexit sysexit_def thn_Inl)

text \<open>Witness for C6: the three failures, each at a concrete specification.\<close>

theorem non_ico_failures_witness:
  "add_icon_spec sample_env False 1 sample_files 1 ''logo.png#0'' =
     ([Info NotInIconFormat], Inl (CannotSpecifyIndexes ''logo.png#0'')) \<and>
   add_icon_spec no_imageio_env False 1 sample_files 1 ''logo.png'' =
     ([Info NotInIconFormat], Inl (NeedImageio ''logo.png'')) \<and>
   add_icon_spec sample_env False 1 sample_files 1 ''logo.png'' =
     ([Info NotInIconFormat, ImRead ''logo.png''], Inl (UnsupportedFileFormat ''logo.png''))"
proof -
  have a: "CHR ''#'' \<in> set ''logo.png#0''" "rsplit_hash ''logo.png#0'' = (''logo.png'', ''0'')"
    "py_int sample_env ''0'' = Some 0" "\<not> endswith (normcase sample_env ''logo.png'') ''.ico''"
    by (simp_all add: rsplit_hash_def sample_env_def decimal_def endswith_def)
  have b: "CHR ''#'' \<notin> set ''logo.png''" "\<not> endswith (normcase no_imageio_env ''logo.png'') ''.ico''"
    "\<not> imageio_installed no_imageio_env"
    by (simp_all add: no_imageio_env_def sample_env_def endswith_def)
  have c: "\<not> endswith (normcase sample_env ''logo.png'') ''.ico''" "imageio_installed sample_env"
    "imread sample_env sample_files (normcase sample_env ''logo.png'') = Inl ValueError"
    "normcase sample_env ''logo.png'' = ''logo.png''"
    by (simp_all add: sample_env_def endswith_def)
  show ?thesis
    using a b c
      non_ico_failures [of "''logo.png#0''" "''logo.png''" "''0''" sample_env 0 False 1 sample_files 1]
      non_ico_failures [of "''logo.png''" "''logo.png''" "''0''" no_imageio_env 0 False 1 sample_files 1]
      non_ico_failures [of "''logo.png''" "''logo.png''" "''0''" sample_env 0 False 1 sample_files 1]
    by simp
qed

text \<open>
  C1: an index that is not below the number of entries must fail with the out-of-range
  error. The code compares with \<^verbatim>\<open>>\<close>, so the index that equals the number of
  entries passes: for \<^verbatim>\<open>b.ico#1\<close>, a file with one entry, no error is raised and no
  entry is selected.
\<close>

theorem index_equal_to_count_is_accepted:
  "read_icon_file sample_env sample_files ''b.ico#1'' ''b.ico'' (Some 1) =
     ([Open ''b.ico'', ReadStructure ''b.ico'' 6, ReadStructure ''b.ico'' 16,
       Info (AddingIcons 0 ''b.ico#1'')],
      Inr (\<lparr>hdr_reserved = 0, hdr_type = 1, hdr_count = 1\<rparr>, [], []))"
  by code_simp

lemma whole_run_with_index_equal_to_count:
  "fst (addWindowsIconFromIcons (sample_env\<lparr>getIconPaths := [''b.ico#1'']\<rparr>) sample_files False) =
     [Open ''b.ico'', ReadStructure ''b.ico'' 6, ReadStructure ''b.ico'' 16,
      Info (AddingIcons 0 ''b.ico#1''),
      AddResource ''app.exe'' RT_GROUP_ICON 0 1 [0, 0, 1, 0, 1, 0]]"
  by code_simp

text \<open>
  C5, as stated: a header whose type is not 1 and a truncated stream abort the reading.
  They do not: the file with type 2 is read like any other, and the file that ends
  after four bytes of its only directory entry yields an entry whose other fields come
  from the memory behind the buffer.
\<close>

theorem malformed_icons_are_read:
  "snd (read_icon_file sample_env [''bad.ico'' \<mapsto> bad_type_icon] ''bad.ico'' ''bad.ico'' None) =
     Inr (\<lparr>hdr_reserved = 0, hdr_type = 2, hdr_count = 1\<rparr>, [sample_icon 48 1 22], [[9]]) \<and>
   snd (read_icon_file sample_env [''cut.ico'' \<mapsto> truncated_icon] ''cut.ico'' ''cut.ico'' None) =
     Inr (\<lparr>hdr_reserved = 0, hdr_type = 1, hdr_count = 1\<rparr>,
          [\<lparr>width = 48, height = 48, colors = 0, reserved = 0, planes = 0, bit_count = 0,
            image_size = 0, image_offset = 0\<rparr>], [[]])"
  by code_simp

lemma read_icon_file_unfold:
  assumes "files icon_path = Some content"
    and "readFromFile_header env \<lparr>s_name = icon_path, s_data = content, s_pos = 0\<rparr> =
           (t1, header, f1)"
    and "read_entries env f1 (nat (sint (hdr_count header))) = (t2, icons, f2)"
  shows "read_icon_file env files icon_spec icon_path icon_index =
     (case select_icons icon_path icon_index icons of
        (ts, Inl e) \<Rightarrow> (Open icon_path # t1 @ t2 @ ts, Inl e)
      | (ts, Inr sel) \<Rightarrow>
          (Open icon_path # t1 @ t2 @ ts @ Info (AddingIcons (length sel) icon_spec) #
             fst (read_images f2 sel),
           (case snd (read_images f2 sel) of
              Inl e \<Rightarrow> Inl e
            | Inr images \<Rightarrow> Inr (header, sel, images))))"
  using assms
  by (simp add: read_icon_file_def thn_def emit_def ret_def split: prod.splits sum.splits)

text \<open>
  C5, amended: the reading checks neither the type field nor the length of what it
  read. Without an index filter it never stops with an error message: it yields as many
  entries as the count field of the header says and one image for each, or an exception
  that nothing catches ends it (a missing file, a negative image offset, an image size
  below -1).
\<close>

theorem icon_reading_is_unvalidated:
  "case read_icon_file env files icon_spec icon_path None of
     (t, Inl e) \<Rightarrow> e = Uncaught OSError \<or> e = Uncaught ValueError
   | (t, Inr (header, icons, images)) \<Rightarrow>
       length icons = nat (sint (hdr_count header)) \<and> length images = length icons"
proof (cases "files icon_path")
  case None
  then show ?thesis by (simp add: read_icon_file_def)
next
  case (Some content)
  obtain t1 header f1 where a:
    "readFromFile_header env \<lparr>s_name = icon_path, s_data = content, s_pos = 0\<rparr> = (t1, header, f1)"
    using prod_cases3 by blast
  obtain t2 icons f2 where b:
    "read_entries env f1 (nat (sint (hdr_count header))) = (t2, icons, f2)"
    using prod_cases3 by blast
  have n: "length icons = nat (sint (hdr_count header))"
    using read_entries_facts [OF b] by simp
  have s: "select_icons icon_path None icons = ([], Inr icons)"
    by (simp add: select_icons_def ret_def)
  show ?thesis
    using n read_images_result [where f = f2 and icons = icons]
    by (simp add: read_icon_file_unfold [where files = files and icon_path = icon_path, OF Some a b] s split: sum.splits)
qed

text \<open>
  C4: no two group icon resources of one run may share a name. \<^verbatim>\<open>icon_group\<close> is set
  to 1 and never incremented, so with two icon files both group icons are added under
  (group icon, 1, 0), and the second replaces the first.
\<close>

theorem two_sources_share_the_group_name:
  "resource_keys (fst (addWindowsIconFromIcons sample_env sample_files False)) =
     [(RT_GROUP_ICON, 1, 0), (RT_GROUP_ICON, 1, 0), (RT_ICON, 1, 0), (RT_ICON, 2, 0),
      (RT_ICON, 3, 0)]"
  by code_simp

lemma index_beyond_count_reads_no_image:
  assumes "read_icon_file env files icon_spec icon_path (Some i) =
             (t, Inl (IconIndexOutOfRange j p n))"
  shows "j = i \<and> p = icon_path \<and> int n < i \<and> \<not> list_ex reads_image t"
proof (cases "files icon_path")
  case None
  with assms show ?thesis by (simp add: read_icon_file_def)
next
  case (Some content)
  obtain t1 header f1 where a:
    "readFromFile_header env \<lparr>s_name = icon_path, s_data = content, s_pos = 0\<rparr> = (t1, header, f1)"
    using prod_cases3 by blast
  obtain t2 icons f2 where b:
    "read_entries env f1 (nat (sint (hdr_count header))) = (t2, icons, f2)"
    using prod_cases3 by blast
  have t12: "\<not> list_ex reads_image (t1 @ t2)"
    using readFromFile_header_facts(1) [OF a] read_entries_facts [OF b] by (simp add: list_ex_iff)
  show ?thesis
  proof (cases "int (length icons) < i")
    case True
    then have "read_icon_file env files icon_spec icon_path (Some i) =
        (Open icon_path # t1 @ t2, Inl (IconIndexOutOfRange i icon_path (length icons)))"
      by (simp add: read_icon_file_unfold [where files = files and icon_path = icon_path, OF Some a b] select_icons_beyond)
    with assms True t12 show ?thesis by auto
  next
    case False
    then have s: "select_icons icon_path (Some i) icons = ([], Inr (py_slice icons i (i + 1)))"
      by (simp add: select_icons_def ret_def)
    have "snd (read_icon_file env files icon_spec icon_path (Some i)) \<noteq>
        Inl (IconIndexOutOfRange j p n)"
      using read_images_result [where f = f2 and icons = "py_slice icons i (i + 1)"]
      by (auto simp: read_icon_file_unfold [where files = files and icon_path = icon_path, OF Some a b] s split: sum.splits)
    with assms show ?thesis by simp
  qed
qed

subsection \<open>The image ids\<close>

lemma emitted_ids_append: "emitted_ids (a @ b) = emitted_ids a @ emitted_ids b"
  by (simp add: emitted_ids_def)

lemma emitted_ids_Nil: "emitted_ids [] = []"
  by (simp add: emitted_ids_def)

lemma emitted_ids_Cons: "emitted_ids (ev # t) = group_ids ev @ emitted_ids t"
  by (simp add: emitted_ids_def)

lemma length_convert_group: "length (convertStructureToBytes_group g) = 14"
  by (simp add: convertStructureToBytes_group_def group_entry_memory_eq
      length_bytes_of_short length_bytes_of_int)

lemma length_convert_header: "length (convertStructureToBytes_header h) = 6"
  by (simp add: convertStructureToBytes_header_def header_memory_eq length_bytes_of_short)

lemma id_of_convert_group:
  "short_of_bytes (take 2 (drop 12 (convertStructureToBytes_group g @ rest))) = g_id g"
proof -
  have "take 2 (drop 12 (convertStructureToBytes_group g @ rest)) = bytes_of_short (g_id g)"
    by (simp add: convertStructureToBytes_group_def group_entry_memory_eq
        length_bytes_of_short length_bytes_of_int bytes_of_short_def bytes_of_int_def)
  then show ?thesis by (simp add: short_of_bytes_of_short)
qed

lemma length_concat_groups:
  "length (concat (map convertStructureToBytes_group gs)) = 14 * length gs"
  by (induction gs) (simp_all add: length_convert_group)

lemma ids_of_entries:
  "map (\<lambda>k. short_of_bytes (take 2 (drop (14 * k + 12)
          (concat (map convertStructureToBytes_group gs))))) [0..<length gs] = map g_id gs"
proof (induction gs)
  case Nil
  then show ?case by simp
next
  case (Cons g gs)
  have step: "\<And>k. drop (14 * Suc k + 12)
      (convertStructureToBytes_group g @ concat (map convertStructureToBytes_group gs)) =
      drop (14 * k + 12) (concat (map convertStructureToBytes_group gs))"
    by (simp add: length_convert_group add.commute)
  have "map (\<lambda>k. short_of_bytes (take 2 (drop (14 * k + 12)
          (concat (map convertStructureToBytes_group (g # gs)))))) [0..<length (g # gs)] =
        short_of_bytes (take 2 (drop 12 (convertStructureToBytes_group g @
            concat (map convertStructureToBytes_group gs)))) #
        map (\<lambda>k. short_of_bytes (take 2 (drop (14 * Suc k + 12)
          (convertStructureToBytes_group g @ concat (map convertStructureToBytes_group gs)))))
          [0..<length gs]"
    by (simp add: map_upt_Suc del: upt_Suc)
  also have "\<dots> = g_id g # map g_id gs"
    using Cons.IH by (simp only: step id_of_convert_group)
  finally show ?case by simp
qed

lemma ids_of_group_payload:
  "ids_of_group (concat (convertStructureToBytes_header h #
       map convertStructureToBytes_group gs)) = map g_id gs"
proof -
  have "ids_of_group (convertStructureToBytes_header h @
          concat (map convertStructureToBytes_group gs)) =
        map (\<lambda>k. short_of_bytes (take 2 (drop (14 * k + 12)
          (concat (map convertStructureToBytes_group gs))))) [0..<length gs]"
    by (simp add: ids_of_group_def length_convert_header length_concat_groups add.commute)
  then show ?thesis by (simp add: ids_of_entries)
qed

lemma group_entries_ids:
  "map g_id (fst (group_entries icons k)) = map word_of_nat [k..<k + length icons] \<and>
   snd (group_entries icons k) = k + length icons"
proof (induction icons arbitrary: k)
  case Nil
  then show ?case by simp
next
  case (Cons icon icons)
  obtain gs k' where g: "group_entries icons (Suc k) = (gs, k')"
    by (cases "group_entries icons (Suc k)") auto
  from Cons.IH [of "Suc k"] g
  have ih: "map g_id gs = map word_of_nat [Suc k..<Suc (k + length icons)]"
    "k' = Suc (k + length icons)"
    by simp_all
  have u: "[k..<Suc (k + length icons)] = k # [Suc k..<Suc (k + length icons)]"
    by (subst upt_rec) simp
  show ?case
    using g ih by (simp add: make_group_entry_def u del: upt_Suc)
qed

lemma emitted_ids_quiet: "\<forall>ev\<in>set t. group_ids ev = [] \<Longrightarrow> emitted_ids t = []"
  by (simp add: emitted_ids_def)

lemma read_images_quiet: "\<forall>ev\<in>set (fst (read_images f icons)). group_ids ev = []"
  by (induction icons) (auto simp: Let_def split: prod.splits)

lemma parse_icon_spec_quiet: "parse_icon_spec env icon_spec = (t, r) \<Longrightarrow> t = []"
  using fst_parse_icon_spec [of env icon_spec] by simp

lemma convert_icon_quiet:
  "convert_icon env onefile files image_id icon_spec icon_path icon_index = (t, r) \<Longrightarrow>
   emitted_ids t = []"
  by (auto simp: convert_icon_def ret_def sysexit_def thn_emit Let_def emitted_ids_def
      split: sum.splits py_exception.splits if_splits)

lemma read_icon_file_quiet:
  assumes "read_icon_file env files icon_spec icon_path icon_index = (t, r)"
  shows "emitted_ids t = []"
proof (cases "files icon_path")
  case None
  with assms show ?thesis by (auto simp: read_icon_file_def emitted_ids_def)
next
  case (Some content)
  obtain t1 header f1 where a:
    "readFromFile_header env \<lparr>s_name = icon_path, s_data = content, s_pos = 0\<rparr> = (t1, header, f1)"
    using prod_cases3 by blast
  obtain t2 icons f2 where b:
    "read_entries env f1 (nat (sint (hdr_count header))) = (t2, icons, f2)"
    using prod_cases3 by blast
  have t1: "emitted_ids t1 = []"
    using readFromFile_header_facts(1) [OF a] by (simp add: emitted_ids_def)
  have t2: "emitted_ids t2 = []"
    using read_entries_facts [OF b] by (auto intro: emitted_ids_quiet)
  have t3: "\<And>sel. emitted_ids (fst (read_images f2 sel)) = []"
    using read_images_quiet by (auto intro: emitted_ids_quiet)
  have ts: "emitted_ids (fst (select_icons icon_path icon_index icons)) = []"
    by (simp add: select_icons_def ret_def sysexit_def emitted_ids_def split: option.splits)
  show ?thesis
    using assms t1 t2 t3 ts
    by (auto simp: read_icon_file_unfold [where files = files and icon_path = icon_path, OF Some a b]
        emitted_ids_append emitted_ids_Cons split: prod.splits sum.splits)
qed

lemma group_entries_eq:
  "group_entries icons k = (gs, k') \<Longrightarrow>
   map g_id gs = map word_of_nat [k..<k'] \<and> k' = k + length icons"
  using group_entries_ids [of icons k] by simp

lemma add_icon_spec_ids:
  assumes "add_icon_spec env onefile g files k icon_spec = (t, r)"
  shows "case r of
           Inl e \<Rightarrow> emitted_ids t = []
         | Inr (images, k', files') \<Rightarrow> emitted_ids t = map word_of_nat [k..<k'] \<and> k \<le> k'"
proof -
  obtain t0 r0 where p: "parse_icon_spec env icon_spec = (t0, r0)"
    by (cases "parse_icon_spec env icon_spec") auto
  have t0: "t0 = []" using parse_icon_spec_quiet [OF p] .
  show ?thesis
  proof (cases r0)
    case (Inl e)
    with assms p t0 show ?thesis
      by (auto simp: add_icon_spec_def thn_def emitted_ids_def)
  next
    case (Inr v)
    obtain icon_path icon_index where v: "v = (icon_path, icon_index)" by (cases v) auto
    obtain t1 r1 where c:
      "convert_icon env onefile files k icon_spec (normcase env icon_path) icon_index = (t1, r1)"
      by (cases "convert_icon env onefile files k icon_spec (normcase env icon_path) icon_index") auto
    have t1: "emitted_ids t1 = []" using convert_icon_quiet [OF c] .
    show ?thesis
    proof (cases r1)
      case (Inl e)
      with assms p t0 Inr v c t1 show ?thesis
        by (auto simp: add_icon_spec_def thn_def)
    next
      case r1: (Inr w)
      obtain path' files' where w: "w = (path', files')" by (cases w) auto
      obtain t2 r2 where rd: "read_icon_file env files' icon_spec path' icon_index = (t2, r2)"
        by (cases "read_icon_file env files' icon_spec path' icon_index") auto
      have t2: "emitted_ids t2 = []" using read_icon_file_quiet [OF rd] .
      show ?thesis
      proof (cases r2)
        case (Inl e)
        with assms p t0 Inr v c t1 r1 w rd t2 show ?thesis
          by (auto simp: add_icon_spec_def thn_def emitted_ids_append)
      next
        case r2: (Inr x)
        obtain header icons images where x: "x = (header, icons, images)" by (cases x) auto
        obtain gs k' where ge: "group_entries icons k = (gs, k')"
          by (cases "group_entries icons k") auto
        have ids: "map g_id gs = map word_of_nat [k..<k']" "k' = k + length icons"
          using group_entries_eq [OF ge] by simp_all
        have "t = t1 @ t2 @ [AddResource (getResultFullpath env onefile) RT_GROUP_ICON 0 g
                (concat (convertStructureToBytes_header header #
                         map convertStructureToBytes_group gs))]"
          "r = Inr (images, k', files')"
          using assms p t0 Inr v c r1 w rd r2 x ge
          by (auto simp: add_icon_spec_def thn_def emit_def ret_def)
        then show ?thesis
          using t1 t2 ids
          by (simp add: emitted_ids_append emitted_ids_Cons emitted_ids_Nil ids_of_group_payload
              del: concat.simps)
      qed
    qed
  qed
qed

lemma icon_loop_ids:
  "\<exists>n. emitted_ids (fst (icon_loop env onefile g files k images specs)) =
         map word_of_nat [k..<k + n]"
proof (induction specs arbitrary: files k images)
  case Nil
  show ?case by (intro exI [of _ 0]) (simp add: emitted_ids_Nil)
next
  case (Cons icon_spec specs)
  obtain t r where a: "add_icon_spec env onefile g files k icon_spec = (t, r)"
    by (cases "add_icon_spec env onefile g files k icon_spec") auto
  show ?case
  proof (cases r)
    case (Inl e)
    then have "emitted_ids (fst (icon_loop env onefile g files k images (icon_spec # specs))) = []"
      using a add_icon_spec_ids [OF a] by simp
    then show ?thesis by (intro exI [of _ 0]) simp
  next
    case (Inr v)
    obtain new_images k' files' where v: "v = (new_images, k', files')" by (cases v) auto
    have first: "emitted_ids t = map word_of_nat [k..<k']" "k \<le> k'"
      using add_icon_spec_ids [OF a] Inr v by simp_all
    obtain t' r' where b:
      "icon_loop env onefile g files' k' (images @ new_images) specs = (t', r')"
      by (cases "icon_loop env onefile g files' k' (images @ new_images) specs") auto
    obtain n where n: "emitted_ids t' = map word_of_nat [k'..<k' + n]"
      using Cons.IH [of files' k' "images @ new_images"] b by auto
    have "[k..<k + (k' - k + n)] = [k..<k'] @ [k'..<k' + n]"
      using first(2) upt_add_eq_append [of k k' n] by simp
    then have "emitted_ids (fst (icon_loop env onefile g files k images (icon_spec # specs))) =
        map word_of_nat [k..<k + (k' - k + n)]"
      using a Inr v first(1) n b by (simp add: emitted_ids_append)
    then show ?thesis by blast
  qed
qed

lemma add_images_quiet: "emitted_ids (add_images r images) = []"
  by (rule emitted_ids_quiet) (auto simp: add_images_def)

lemma unat_ids:
  assumes "n < 65536"
  shows "map unat (map word_of_nat [1..<Suc n] :: 16 word list) = [1..<Suc n]"
proof -
  have "\<And>x. x \<in> set [1..<Suc n] \<Longrightarrow> (unat \<circ> (word_of_nat :: nat \<Rightarrow> 16 word)) x = x"
  proof -
    fix x assume "x \<in> set [1..<Suc n]"
    then have "x < Suc n" by (simp only: set_upt atLeastLessThan_iff)
    then have "x < 65536" using assms by linarith
    then show "(unat \<circ> (word_of_nat :: nat \<Rightarrow> 16 word)) x = x"
      by (simp add: unat_of_nat)
  qed
  then have "map (unat \<circ> (word_of_nat :: nat \<Rightarrow> 16 word)) [1..<Suc n] = [1..<Suc n]"
    by (rule map_idI)
  then show ?thesis by (simp only: map_map)
qed

text \<open>
  C3, amended: in every call of the icon-adding step the \<^verbatim>\<open>id\<close> fields of the group
  entries it writes, read in the order they are written and across all icon sources, are
  the numbers 1, 2, 3, ... as 16-bit values: the counter starts at 1 in each call, is
  never reset between sources, and the field keeps its low 16 bits. While fewer than
  65536 entries are written the ids, read as unsigned numbers, are exactly 1, 2, 3, ...
  up to the number of entries, hence strictly increasing.
\<close>

theorem image_ids_count_from_one:
  "emitted_ids (fst (addWindowsIconFromIcons env files onefile)) =
     map word_of_nat [1..<Suc (length (emitted_ids (fst (addWindowsIconFromIcons env files onefile))))] \<and>
   (length (emitted_ids (fst (addWindowsIconFromIcons env files onefile))) < 65536 \<longrightarrow>
      map unat (emitted_ids (fst (addWindowsIconFromIcons env files onefile))) =
        [1..<Suc (length (emitted_ids (fst (addWindowsIconFromIcons env files onefile))))])"
proof -
  let ?t = "fst (addWindowsIconFromIcons env files onefile)"
  obtain n where n:
    "emitted_ids (fst (icon_loop env onefile 1 files 1 [] (getIconPaths env))) =
       map word_of_nat [1..<1 + n]"
    using icon_loop_ids by blast
  have "emitted_ids ?t = emitted_ids (fst (icon_loop env onefile 1 files 1 [] (getIconPaths env)))"
    by (auto simp: addWindowsIconFromIcons_def fst_thn emitted_ids_append add_images_quiet
        emitted_ids_Nil split: sum.splits)
  with n have e: "emitted_ids ?t = map word_of_nat [1..<Suc n]" by simp
  then have l: "length (emitted_ids ?t) = n" by simp
  show ?thesis
    unfolding l
  proof (intro conjI impI)
    show "emitted_ids ?t = map word_of_nat [1..<Suc n]" by (rule e)
  next
    assume "n < 65536"
    then show "map unat (emitted_ids ?t) = [1..<Suc n]"
      unfolding e by (rule unat_ids)
  qed
qed

subsection \<open>Reading well-formed icon files\<close>

lemma entry_memory_eq:
  "entry_memory e =
     [width e, height e, colors e, reserved e] @
     bytes_of_short (planes e) @ bytes_of_short (bit_count e) @
     bytes_of_int (image_size e) @ bytes_of_int (image_offset e)"
  by (simp add: entry_memory_def struct_image_def
      sizeof_IconDirectoryEntry [unfolded IconDirectoryEntry_fields_def]
      IconDirectoryEntry_fields_def field_align_def align_up_def
      length_bytes_of_short length_bytes_of_int)

lemma length_entry_memory: "length (entry_memory e) = 16"
  by (simp add: entry_memory_eq length_bytes_of_short length_bytes_of_int)

lemma length_header_memory: "length (header_memory h) = 6"
  by (simp add: header_memory_eq length_bytes_of_short)

lemma header_of_header_memory: "header_of_memory (header_memory h) = h"
proof -
  have f: "field_bytes None IconDirectoryHeader_fields (header_memory h) 0 = bytes_of_short (hdr_reserved h)"
    "field_bytes None IconDirectoryHeader_fields (header_memory h) 1 = bytes_of_short (hdr_type h)"
    "field_bytes None IconDirectoryHeader_fields (header_memory h) 2 = bytes_of_short (hdr_count h)"
    by (simp_all add: field_bytes_def offsets_IconDirectoryHeader header_memory_eq
        bytes_of_short_def, simp_all add: IconDirectoryHeader_fields_def)
  show ?thesis
    by (simp add: header_of_memory_def f f(2) [unfolded One_nat_def] short_of_bytes_of_short)
qed

lemma entry_of_entry_memory: "entry_of_memory (entry_memory e) = e"
proof -
  let ?f = "field_bytes None IconDirectoryEntry_fields (entry_memory e)"
  have f: "?f 0 = [width e]" "?f 1 = [height e]" "?f 2 = [colors e]" "?f 3 = [reserved e]"
    "?f 4 = bytes_of_short (planes e)" "?f 5 = bytes_of_short (bit_count e)"
    "?f 6 = bytes_of_int (image_size e)" "?f 7 = bytes_of_int (image_offset e)"
    by (simp_all add: field_bytes_def offsets_IconDirectoryEntry entry_memory_eq
        bytes_of_short_def bytes_of_int_def, simp_all add: IconDirectoryEntry_fields_def)
  show ?thesis
    by (simp add: entry_of_memory_def f f(2) [unfolded One_nat_def] short_of_bytes_of_short
        int_of_bytes_of_int)
qed


lemma readFromFile_header_wellformed:
  "readFromFile_header env \<lparr>s_name = p, s_data = ico_file h es body, s_pos = 0\<rparr> =
     ([ReadStructure p 6], h,
      \<lparr>s_name = p, s_data = ico_file h es body, s_pos = 6\<rparr>)"
  by (simp add: readFromFile_header_def readFromFile_def sizeof_IconDirectoryHeader Let_def
      ico_file_def length_header_memory header_of_header_memory)

lemma read_entries_wellformed:
  assumes "s_data f = pre @ concat (map entry_memory es) @ post" and "s_pos f = length pre"
  shows "fst (snd (read_entries env f (length es))) = es"
  using assms
proof (induction es arbitrary: f pre)
  case Nil
  then show ?case by simp
next
  case (Cons e es)
  have chunk: "take 16 (drop (s_pos f) (s_data f)) = entry_memory e"
    using Cons.prems by (simp add: length_entry_memory)
  have rd: "readFromFile_entry env f =
      ([ReadStructure (s_name f) 16], e, f\<lparr>s_pos := s_pos f + 16\<rparr>)"
    by (simp add: readFromFile_entry_def readFromFile_def sizeof_IconDirectoryEntry Let_def
        chunk length_entry_memory entry_of_entry_memory)
  have "fst (snd (read_entries env (f\<lparr>s_pos := s_pos f + 16\<rparr>) (length es))) = es"
    using Cons.prems
    by (intro Cons.IH [where pre = "pre @ entry_memory e"]) (simp_all add: length_entry_memory)
  then show ?case
    by (auto simp: rd split: prod.splits)
qed

lemma read_images_ok:
  assumes "\<forall>e\<in>set es. 0 \<le> sint (image_offset e) \<and> - 1 \<le> sint (image_size e)"
  shows "\<exists>images. snd (read_images f es) = Inr images"
  using assms
proof (induction es)
  case Nil
  then show ?case by simp
next
  case (Cons e es)
  then obtain images where "snd (read_images f es) = Inr images" by auto
  with Cons.prems show ?case
    by (auto simp: Let_def split: prod.splits)
qed

lemma read_icon_file_wellformed:
  assumes "files p = Some (ico_file h es body)"
    and "sint (hdr_count h) = int (length es)"
    and "\<forall>e\<in>set es. 0 \<le> sint (image_offset e) \<and> - 1 \<le> sint (image_size e)"
  shows "\<exists>images. snd (read_icon_file env files icon_spec p None) = Inr (h, es, images)"
proof -
  let ?f1 = "\<lparr>s_name = p, s_data = ico_file h es body, s_pos = 6\<rparr>"
  obtain t2 icons f2 where b: "read_entries env ?f1 (nat (sint (hdr_count h))) = (t2, icons, f2)"
    using prod_cases3 by blast
  have "fst (snd (read_entries env ?f1 (length es))) = es"
    by (rule read_entries_wellformed [where pre = "header_memory h" and post = body])
      (simp_all add: ico_file_def length_header_memory)
  with b assms(2) have icons: "icons = es" by simp
  obtain images where i: "snd (read_images f2 es) = Inr images"
    using read_images_ok [OF assms(3)] by blast
  have s: "select_icons p None es = ([], Inr es)"
    by (simp add: select_icons_def ret_def)
  have "snd (read_icon_file env files icon_spec p None) = Inr (h, es, images)"
    using i icons
    by (simp add: read_icon_file_unfold [where files = files and icon_path = p,
          OF assms(1) readFromFile_header_wellformed b] s)
  then show ?thesis by blast
qed

lemma add_icon_spec_wellformed:
  assumes "CHR ''#'' \<notin> set icon_spec"
    and "endswith (normcase env icon_spec) ''.ico''"
    and "files (normcase env icon_spec) = Some (ico_file h es body)"
    and "sint (hdr_count h) = int (length es)"
    and "\<forall>e\<in>set es. 0 \<le> sint (image_offset e) \<and> - 1 \<le> sint (image_size e)"
  shows "\<exists>t images. add_icon_spec env onefile g files k icon_spec =
           (t, Inr (images, k + length es, files)) \<and> length (emitted_ids t) = length es"
proof -
  obtain images where r:
    "snd (read_icon_file env files icon_spec (normcase env icon_spec) None) = Inr (h, es, images)"
    using read_icon_file_wellformed [where files = files and p = "normcase env icon_spec",
        OF assms(3,4,5)] by blast
  obtain t where t: "add_icon_spec env onefile g files k icon_spec = (t, snd (add_icon_spec env onefile g files k icon_spec))"
    by (cases "add_icon_spec env onefile g files k icon_spec") auto
  have s: "snd (add_icon_spec env onefile g files k icon_spec) = Inr (images, k + length es, files)"
    using assms(1,2) r group_entries_ids [of es k]
    by (auto simp: add_icon_spec_def parse_icon_spec_def convert_icon_def thn_ret snd_thn emit_def
        ret_def split: prod.splits)
  have "emitted_ids t = map word_of_nat [k..<k + length es]"
    using add_icon_spec_ids [OF t] s by simp
  then have "length (emitted_ids t) = length es" by simp
  with t s show ?thesis by auto
qed


lemma emitted_ids_of_run:
  "\<exists>n. emitted_ids (fst (addWindowsIconFromIcons env files onefile)) =
         map word_of_nat [1..<Suc n]"
proof -
  obtain n where n:
    "emitted_ids (fst (icon_loop env onefile 1 files 1 [] (getIconPaths env))) =
       map word_of_nat [1..<1 + n]"
    using icon_loop_ids by blast
  have "emitted_ids (fst (addWindowsIconFromIcons env files onefile)) =
      emitted_ids (fst (icon_loop env onefile 1 files 1 [] (getIconPaths env)))"
    by (auto simp: addWindowsIconFromIcons_def fst_thn emitted_ids_append add_images_quiet
        emitted_ids_Nil split: sum.splits)
  with n show ?thesis by (intro exI [of _ n]) simp
qed

lemma emitted_ids_of_run_loop:
  "emitted_ids (fst (addWindowsIconFromIcons env files onefile)) =
     emitted_ids (fst (icon_loop env onefile 1 files 1 [] (getIconPaths env)))"
  by (auto simp: addWindowsIconFromIcons_def fst_thn emitted_ids_append add_images_quiet
      emitted_ids_Nil split: sum.splits)

lemma length_big_entries: "length big_entries = 32767"
  by (simp add: big_entries_def)

text \<open>
  C3, as stated: the ids of the group entries of one run are 1, 2, 3, ... strictly
  increasing. The \<^verbatim>\<open>id\<close> field is a \<^verbatim>\<open>c_short\<close>: in a run over three icon files
  with 32767, 32767 and 2 entries, 65536 entries are written and the last one gets the
  id 0.
\<close>

theorem ids_wrap_after_65535:
  "length (emitted_ids (fst (addWindowsIconFromIcons big_env big_files False))) = 65536 \<and>
   emitted_ids (fst (addWindowsIconFromIcons big_env big_files False)) ! 65535 = 0"
proof -
  let ?ids = "emitted_ids (fst (addWindowsIconFromIcons big_env big_files False))"
  let ?h = "\<lparr>hdr_reserved = 0, hdr_type = 1, hdr_count = 32767\<rparr>"
  let ?h2 = "\<lparr>hdr_reserved = 0, hdr_type = 1, hdr_count = 2\<rparr>"
  let ?es2 = "[sample_icon 16 3 38, sample_icon 32 2 41]"
  have nc: "normcase big_env = (\<lambda>p. p)" "getIconPaths big_env = [''big.ico'', ''big.ico'', ''a.ico'']"
    by (simp_all add: big_env_def sample_env_def)
  have big: "CHR ''#'' \<notin> set ''big.ico''" "endswith (normcase big_env ''big.ico'') ''.ico''"
    "big_files (normcase big_env ''big.ico'') = Some (ico_file ?h big_entries [])"
    "sint (hdr_count ?h) = int (length big_entries)"
    "\<forall>e\<in>set big_entries. 0 \<le> sint (image_offset e) \<and> - 1 \<le> sint (image_size e)"
    by (simp_all add: nc endswith_def big_files_def big_icon_def length_big_entries,
        simp add: big_entries_def sample_icon_def)
  have small: "CHR ''#'' \<notin> set ''a.ico''" "endswith (normcase big_env ''a.ico'') ''.ico''"
    "big_files (normcase big_env ''a.ico'') = Some (ico_file ?h2 ?es2 [1, 2, 3, 4, 5])"
    "sint (hdr_count ?h2) = int (length ?es2)"
    "\<forall>e\<in>set ?es2. 0 \<le> sint (image_offset e) \<and> - 1 \<le> sint (image_size e)"
    by (simp_all add: nc endswith_def big_files_def sample_files_def two_icons_def
        sample_icon_def)
  obtain t1 i1 where a1:
    "add_icon_spec big_env False 1 big_files 1 ''big.ico'' =
       (t1, Inr (i1, 1 + length big_entries, big_files))"
    "length (emitted_ids t1) = length big_entries"
    using add_icon_spec_wellformed [where files = big_files and env = big_env, OF big] by blast
  obtain t2 i2 where a2:
    "add_icon_spec big_env False 1 big_files (1 + length big_entries) ''big.ico'' =
       (t2, Inr (i2, 1 + length big_entries + length big_entries, big_files))"
    "length (emitted_ids t2) = length big_entries"
    using add_icon_spec_wellformed [where files = big_files and env = big_env, OF big] by blast
  obtain t3 i3 where a3:
    "add_icon_spec big_env False 1 big_files (1 + length big_entries + length big_entries) ''a.ico'' =
       (t3, Inr (i3, 1 + length big_entries + length big_entries + length ?es2, big_files))"
    "length (emitted_ids t3) = length ?es2"
    using add_icon_spec_wellformed [where files = big_files and env = big_env, OF small] by blast
  have "fst (icon_loop big_env False 1 big_files 1 [] [''big.ico'', ''big.ico'', ''a.ico'']) =
      t1 @ t2 @ t3"
    using a1(1) a2(1) a3(1) by simp
  then have "length ?ids = length big_entries + length big_entries + length ?es2"
    using a1(2) a2(2) a3(2) by (simp add: emitted_ids_of_run_loop nc emitted_ids_append)
  then have len: "length ?ids = 65536"
    by (simp add: length_big_entries)
  obtain n where e: "?ids = map word_of_nat [1..<Suc n]"
    using emitted_ids_of_run by blast
  have "length (map (word_of_nat :: nat \<Rightarrow> 16 word) [1..<Suc n]) = n" by simp
  with e len have n: "n = 65536" by simp
  have "(map (word_of_nat :: nat \<Rightarrow> 16 word) [1..<Suc n]) ! 65535 = word_of_nat (1 + 65535)"
    by (rule nth_map_upt) (simp add: n)
  then have "?ids ! 65535 = word_of_nat (1 + 65535)"
    by (simp only: e)
  then have "?ids ! 65535 = 0" by simp
  with len show ?thesis by blast
qed

text \<open>
  Witness for C3: two sources with 2 and 3 entries get the ids 1, 2 and 3, 4, 5.
\<close>

theorem image_ids_witness:
  "length (emitted_ids (fst (addWindowsIconFromIcons two_three_env two_three_files False))) < 65536 \<and>
   map unat (emitted_ids (fst (addWindowsIconFromIcons two_three_env two_three_files False))) =
     [1, 2, 3, 4, 5]"
proof -
  let ?t = "fst (addWindowsIconFromIcons two_three_env two_three_files False)"
  let ?h2 = "\<lparr>hdr_reserved = 0, hdr_type = 1, hdr_count = 2\<rparr>"
  let ?es2 = "[sample_icon 16 3 38, sample_icon 32 2 41]"
  let ?h3 = "\<lparr>hdr_reserved = 0, hdr_type = 1, hdr_count = 3\<rparr>"
  let ?es3 = "[sample_icon 16 1 54, sample_icon 32 1 55, sample_icon 48 1 56]"
  have nc: "normcase two_three_env = (\<lambda>p. p)" "getIconPaths two_three_env = [''a.ico'', ''c.ico'']"
    by (simp_all add: two_three_env_def sample_env_def)
  have two: "CHR ''#'' \<notin> set ''a.ico''" "endswith (normcase two_three_env ''a.ico'') ''.ico''"
    "two_three_files (normcase two_three_env ''a.ico'') = Some (ico_file ?h2 ?es2 [1, 2, 3, 4, 5])"
    "sint (hdr_count ?h2) = int (length ?es2)"
    "\<forall>e\<in>set ?es2. 0 \<le> sint (image_offset e) \<and> - 1 \<le> sint (image_size e)"
    by (simp_all add: nc endswith_def two_three_files_def sample_files_def two_icons_def
        sample_icon_def)
  have three: "CHR ''#'' \<notin> set ''c.ico''" "endswith (normcase two_three_env ''c.ico'') ''.ico''"
    "two_three_files (normcase two_three_env ''c.ico'') = Some (ico_file ?h3 ?es3 [6, 7, 8])"
    "sint (hdr_count ?h3) = int (length ?es3)"
    "\<forall>e\<in>set ?es3. 0 \<le> sint (image_offset e) \<and> - 1 \<le> sint (image_size e)"
    by (simp_all add: nc endswith_def two_three_files_def three_icons_def sample_icon_def)
  obtain t1 i1 where a1:
    "add_icon_spec two_three_env False 1 two_three_files 1 ''a.ico'' =
       (t1, Inr (i1, 1 + length ?es2, two_three_files))"
    "length (emitted_ids t1) = length ?es2"
    using add_icon_spec_wellformed [where files = two_three_files and env = two_three_env, OF two]
    by blast
  obtain t2 i2 where a2:
    "add_icon_spec two_three_env False 1 two_three_files (1 + length ?es2) ''c.ico'' =
       (t2, Inr (i2, 1 + length ?es2 + length ?es3, two_three_files))"
    "length (emitted_ids t2) = length ?es3"
    using add_icon_spec_wellformed [where files = two_three_files and env = two_three_env, OF three]
    by blast
  have "fst (icon_loop two_three_env False 1 two_three_files 1 [] [''a.ico'', ''c.ico'']) = t1 @ t2"
    using a1(1) a2(1) by simp
  then have l: "length (emitted_ids ?t) = 5"
    using a1(2) a2(2) by (simp add: emitted_ids_of_run_loop nc emitted_ids_append)
  then have lt: "length (emitted_ids ?t) < 65536" by simp
  have "map unat (emitted_ids ?t) = [1..<Suc (length (emitted_ids ?t))]"
    using image_ids_count_from_one [of two_three_env two_three_files False] lt by blast
  then have "map unat (emitted_ids ?t) = [1, 2, 3, 4, 5]"
    by (simp add: l upt_rec)
  with lt show ?thesis by blast
qed

end
